theory Spec2Isabelle
  imports Complex_Main "HOL-Library.Product_Lexorder" "HOL-Library.List_Lexorder"
    "HOL-Library.Char_ord"
begin

section \<open>Data model\<close>

text \<open>
  The module \<^verbatim>\<open>src/api/market.py\<close> mirrors market orders and market history of a remote
  HTTP source (ESI) into a relational store and a short-lived response cache.  Rows of the
  two tables are records; a table is the list of its rows in insertion order.

  Time is read in whole epoch seconds (\<^verbatim>\<open>int(time.time())\<close> is what the code stores
  in \<^verbatim>\<open>retrieve_time\<close>); prices are decimals.
\<close>

record order =
  order_id :: int
  type_id :: int
  region_id :: int
  location_id :: int
  system_id :: int
  is_buy_order :: bool
  price :: rat
  volume_remain :: int
  duration :: int
  issued :: int
  retrieve_time :: int

record history =
  h_region_id :: int
  h_type_id :: int
  h_date :: int
  average :: rat
  highest :: rat
  lowest :: rat
  volume :: int
  order_count :: int

text \<open>One day of history as the remote source sends it: the date is still a string.\<close>

record raw_history =
  raw_date :: string
  raw_average :: rat
  raw_highest :: rat
  raw_lowest :: rat
  raw_volume :: int
  raw_order_count :: int

section \<open>FreshnessOracle\<close>

text \<open>
  Modelled from the spec: \<^verbatim>\<open>_update_or_not\<close> is imported by \<^verbatim>\<open>market.py\<close> from
  \<^verbatim>\<open>src/api/utils.py\<close>, which is not among the source files.  The definitions follow
  section 4.1 of the specification step by step: the maximum of the timestamp column among
  the rows matching the filter (SQL \<^verbatim>\<open>MAX\<close>, absent on no rows), the staleness test
  against the threshold, and the count of matching rows at the maximum.  The keyword
  filter (\<^verbatim>\<open>region_id=\<close>, \<^verbatim>\<open>location_id=\<close>, \<^verbatim>\<open>type_id=\<close>) is a predicate on rows.
  The specification fixes the returned timestamp for the answers "no rows" (absent) and
  "fresh" (the maximum); for a stale answer with rows the model returns the maximum too.
\<close>

definition max_timestamp :: "('r \<Rightarrow> int) \<Rightarrow> ('r \<Rightarrow> bool) \<Rightarrow> 'r list \<Rightarrow> int option" where
  "max_timestamp max_column flt table =
     (case filter flt table of
        [] \<Rightarrow> None
      | r # rs \<Rightarrow> Some (fold (\<lambda>x m. max (max_column x) m) rs (max_column r)))"

definition count_at :: "('r \<Rightarrow> int) \<Rightarrow> ('r \<Rightarrow> bool) \<Rightarrow> 'r list \<Rightarrow> int \<Rightarrow> nat" where
  "count_at max_column flt table t =
     length (filter (\<lambda>r. flt r \<and> max_column r = t) table)"

definition update_or_not ::
  "int \<Rightarrow> 'r list \<Rightarrow> ('r \<Rightarrow> int) \<Rightarrow> nat \<Rightarrow> bool \<Rightarrow> ('r \<Rightarrow> bool) \<Rightarrow> bool \<times> int option" where
  "update_or_not threshold table max_column min_fresh_entry fresh_entry_check flt =
     (case max_timestamp max_column flt table of
        None \<Rightarrow> (True, None)
      | Some m \<Rightarrow>
          if m < threshold then (True, Some m)
          else if fresh_entry_check \<and> count_at max_column flt table m < min_fresh_entry
          then (True, Some m)
          else (False, Some m))"

section \<open>PersistentStore\<close>

text \<open>
  Modelled from the spec: \<^verbatim>\<open>ESIDB.orders_insert_update\<close> and
  \<^verbatim>\<open>ESIDB.history_insert_ignore\<close>, the insertion methods that \<^verbatim>\<open>market.py\<close> hands to
  \<^verbatim>\<open>DataFrame.to_sql\<close>, live in \<^verbatim>\<open>src/data\<close>, which is not among the source files.
  Section 4.4 of the specification: orders are inserted or updated by \<^verbatim>\<open>order_id\<close>, an
  existing row having its mutable fields (price, volume_remain, duration, retrieve_time)
  overwritten; history is inserted or ignored by \<^verbatim>\<open>(region_id, type_id, date)\<close>.  A
  batch is written row by row.
\<close>

definition orders_upsert_row :: "order list \<Rightarrow> order \<Rightarrow> order list" where
  "orders_upsert_row tbl r =
     (if order_id r \<in> set (map order_id tbl)
      then map (\<lambda>x. if order_id x = order_id r
                     then x\<lparr>price := price r, volume_remain := volume_remain r,
                            duration := duration r, retrieve_time := retrieve_time r\<rparr>
                     else x) tbl
      else tbl @ [r])"

definition orders_insert_update :: "order list \<Rightarrow> order list \<Rightarrow> order list" where
  "orders_insert_update tbl rows = fold (\<lambda>r t. orders_upsert_row t r) rows tbl"

definition history_key :: "history \<Rightarrow> int \<times> int \<times> int" where
  "history_key h = (h_region_id h, h_type_id h, h_date h)"

definition history_ignore_row :: "history list \<Rightarrow> history \<Rightarrow> history list" where
  "history_ignore_row tbl r =
     (if history_key r \<in> set (map history_key tbl) then tbl else tbl @ [r])"

definition history_insert_ignore :: "history list \<Rightarrow> history list \<Rightarrow> history list" where
  "history_insert_ignore tbl rows = fold (\<lambda>r t. history_ignore_row t r) rows tbl"

text \<open>
  Modelled from the spec: \<^verbatim>\<open>_select_from_orders\<close> (also of \<^verbatim>\<open>src/api/utils.py\<close>)
  filters the orders table by any combination of order side, type, region, location and
  \<^verbatim>\<open>retrieve_time\<close>; an argument that is absent does not filter.  Where a call of
  \<^verbatim>\<open>market.py\<close> leaves the order side and the type out, the model passes the
  defaults of the queries themselves, \<^verbatim>\<open>"all"\<close> and \<^verbatim>\<open>None\<close>.
\<close>

definition select_from_orders ::
  "string \<Rightarrow> int option \<Rightarrow> int option \<Rightarrow> int option \<Rightarrow> int option \<Rightarrow> order list \<Rightarrow> order list" where
  "select_from_orders order_type tid rid lid rt tbl =
     filter (\<lambda>r. (if order_type = ''buy'' then is_buy_order r
                   else if order_type = ''sell'' then \<not> is_buy_order r else True)
                \<and> (case tid of None \<Rightarrow> True | Some t \<Rightarrow> type_id r = t)
                \<and> (case rid of None \<Rightarrow> True | Some t \<Rightarrow> region_id r = t)
                \<and> (case lid of None \<Rightarrow> True | Some t \<Rightarrow> location_id r = t)
                \<and> (case rt of None \<Rightarrow> True | Some t \<Rightarrow> retrieve_time r = t)) tbl"

section \<open>Dates\<close>

text \<open>
  \<^verbatim>\<open>datetime.strptime(f"{date} +0000", "%Y-%m-%d %z")\<close> and \<^verbatim>\<open>datetime.timestamp\<close>
  of the Python standard library, for the one shape the remote source sends: four digits
  of year, two of month, two of day, then the offset appended by the code.  A string of
  another shape, or one that names no calendar day, is a \<^verbatim>\<open>ValueError\<close>.  The day
  number is the proleptic Gregorian ordinal of \<^verbatim>\<open>datetime.py\<close>
  (\<^verbatim>\<open>_days_before_year\<close>, \<^verbatim>\<open>_days_before_month\<close>, \<^verbatim>\<open>_ymd2ord\<close>); the timestamp of
  an aware datetime is its distance from 1970-01-01 00:00 UTC in seconds.
\<close>

definition digit :: "char \<Rightarrow> int option" where
  "digit c = (let k = (of_char c :: nat) in
                if 48 \<le> k \<and> k \<le> 57 then Some (int k - 48) else None)"

fun number_from :: "int \<Rightarrow> string \<Rightarrow> int option" where
  "number_from acc [] = Some acc"
| "number_from acc (c # cs) =
     (case digit c of None \<Rightarrow> None | Some d \<Rightarrow> number_from (10 * acc + d) cs)"

definition number :: "string \<Rightarrow> int option" where
  "number s = (if s = [] then None else number_from 0 s)"

definition is_leap :: "int \<Rightarrow> bool" where
  "is_leap y = (y mod 4 = 0 \<and> (y mod 100 \<noteq> 0 \<or> y mod 400 = 0))"

definition days_in_month :: "int \<Rightarrow> int \<Rightarrow> int" where
  "days_in_month y m =
     (if m = 2 then (if is_leap y then 29 else 28)
      else if m = 4 \<or> m = 6 \<or> m = 9 \<or> m = 11 then 30 else 31)"

definition days_before_year :: "int \<Rightarrow> int" where
  "days_before_year year =
     (let y = year - 1 in y * 365 + y div 4 - y div 100 + y div 400)"

definition days_before_month :: "int \<Rightarrow> int \<Rightarrow> int" where
  "days_before_month y m =
     [0, 31, 59, 90, 120, 151, 181, 212, 243, 273, 304, 334] ! nat (m - 1)
       + (if 2 < m \<and> is_leap y then 1 else 0)"

definition ymd2ord :: "int \<Rightarrow> int \<Rightarrow> int \<Rightarrow> int" where
  "ymd2ord y m d = days_before_year y + days_before_month y m + d"

text \<open>The parsed fields: year, month, day and the offset from UTC in seconds.\<close>

definition strptime :: "string \<Rightarrow> (int \<times> int \<times> int \<times> int) option" where
  "strptime s =
     (if length s = 16 \<and> s ! 4 = CHR ''-'' \<and> s ! 7 = CHR ''-'' \<and> s ! 10 = CHR '' ''
         \<and> (s ! 11 = CHR ''+'' \<or> s ! 11 = CHR ''-'')
      then
        (case (number (take 4 s), number (take 2 (drop 5 s)), number (take 2 (drop 8 s)),
               number (take 2 (drop 12 s)), number (take 2 (drop 14 s))) of
           (Some y, Some m, Some d, Some zh, Some zm) \<Rightarrow>
             if 1 \<le> y \<and> 1 \<le> m \<and> m \<le> 12 \<and> 1 \<le> d \<and> d \<le> days_in_month y m \<and> zm < 60
             then Some (y, m, d,
                        (if s ! 11 = CHR ''-'' then - 1 else 1) * (zh * 3600 + zm * 60))
             else None
         | _ \<Rightarrow> None)
      else None)"

definition timestamp :: "int \<times> int \<times> int \<times> int \<Rightarrow> int" where
  "timestamp dt =
     (case dt of (y, m, d, utcoffset) \<Rightarrow>
        (ymd2ord y m d - ymd2ord 1970 1 1) * 86400 - utcoffset)"

text \<open>
  The function applied to the \<^verbatim>\<open>date\<close> column in \<^verbatim>\<open>_get_type_history_async\<close>
  (lines 440 to 445).
\<close>

definition date_to_epoch :: "string \<Rightarrow> int option" where
  "date_to_epoch date =
     (case strptime (date @ '' +0000'') of
        None \<Rightarrow> None
      | Some dt \<Rightarrow> Some (timestamp dt + 39900))"

section \<open>Arguments, errors and the world\<close>

text \<open>
  An identifier argument is a string (a name), an integer (an id; Python's \<^verbatim>\<open>bool\<close> is
  a subclass of \<^verbatim>\<open>int\<close>, so \<^verbatim>\<open>False\<close> and \<^verbatim>\<open>True\<close> are the ids 0 and 1), or a value
  of any other type.  The option bag \<^verbatim>\<open>**kwd\<close> is an association list.
\<close>

datatype pyval = PyStr string | PyInt int | PyOther

type_synonym kwd = "(string \<times> int) list"

definition kwd_get :: "kwd \<Rightarrow> string \<Rightarrow> int option" where
  "kwd_get kwd k = map_of kwd k"

datatype error =
    TypeError
  | ValueError_cname
  | ValueError_order_type
  | ValueError_concat
  | ValueError_date
  | KeyError string
  | UnboundLocalError
  | CollaboratorError

text \<open>
  A reduction function handed to the history queries: its name (what a cache key can
  see of it) and what it computes.
\<close>

datatype reducer = Reducer string "history list \<Rightarrow> history list"

datatype payload =
    Orders "order list"
  | Histories "history list"
  | TypeIds "int list"
  | PyNone

text \<open>
  Modelled from the spec: \<^verbatim>\<open>make_cache_key\<close> of \<^verbatim>\<open>src/api/utils.py\<close> is not among the
  source files.  Section 6: the key is a deterministic function of the operation name, the
  positional arguments in call order and the keyword arguments sorted by name.
\<close>

datatype keyarg = KInt int | KStr string | KNone | KInts "int list" | KFun string

datatype cache_key = CacheKey string "keyarg list" kwd

definition make_cache_key :: "string \<Rightarrow> keyarg list \<Rightarrow> kwd \<Rightarrow> cache_key" where
  "make_cache_key func args kwd = CacheKey func args (sort_key fst kwd)"

definition key_of_opt :: "int option \<Rightarrow> keyarg" where
  "key_of_opt x = (case x of None \<Rightarrow> KNone | Some i \<Rightarrow> KInt i)"

definition key_of_reducer :: "reducer option \<Rightarrow> keyarg" where
  "key_of_reducer x = (case x of None \<Rightarrow> KNone | Some (Reducer n f) \<Rightarrow> KFun n)"

text \<open>The remote endpoints the module requests, with their path and query parameters.\<close>

datatype endpoint =
    StructureOrders int
  | RegionOrders int string "int option"
  | RegionHistory int int
  | RegionTypes int

record headers =
  Expires :: "int option"
  X_Pages :: "int option"

text \<open>
  Everything outside the process: the name-resolution collaborators
  (\<^verbatim>\<open>search_id\<close>, \<^verbatim>\<open>search_structure_id\<close>, \<^verbatim>\<open>search_station_region_id\<close> of
  \<^verbatim>\<open>src/api\<close>), the validity check \<^verbatim>\<open>_check_type_id_async\<close> and the transport
  \<^verbatim>\<open>ESIClient\<close>.  None of them is among the source files; each is a parameter of the
  model, answering \<open>None\<close> when the call raises.
\<close>

record remote =
  search_id :: "string \<Rightarrow> string \<Rightarrow> int option"
  search_structure_id :: "pyval \<Rightarrow> string option \<Rightarrow> int option"
  search_station_region_id :: "int \<Rightarrow> int option"
  check_type_id :: "int \<Rightarrow> bool option"
  esi_head :: "endpoint \<Rightarrow> headers option"
  esi_orders_page :: "endpoint \<Rightarrow> int \<Rightarrow> order list option"
  esi_types_page :: "endpoint \<Rightarrow> int \<Rightarrow> int list option"
  esi_history :: "endpoint \<Rightarrow> raw_history list option"

text \<open>
  What a call does besides returning, in the order it does it.  \<open>Search\<close> is a call of a
  name-resolution collaborator, \<open>Head\<close>, \<open>Get\<close> and \<open>Request\<close> are requests to the remote
  source, \<open>Oracle\<close> is a freshness decision, \<open>StoreRead\<close> and \<open>StoreWrite\<close> are a select
  from and a write to a table.
\<close>

datatype event =
    Search string
  | CheckType int
  | Head endpoint
  | Get endpoint "int list"
  | Request endpoint
  | CacheGet cache_key
  | CacheSet cache_key
  | Oracle string
  | StoreRead string
  | StoreWrite string

fun is_remote :: "event \<Rightarrow> bool" where
  "is_remote (Head e) = True"
| "is_remote (Get e ps) = True"
| "is_remote (Request e) = True"
| "is_remote ev = False"

fun is_store :: "event \<Rightarrow> bool" where
  "is_store (Oracle t) = True"
| "is_store (StoreRead t) = True"
| "is_store (StoreWrite t) = True"
| "is_store ev = False"

fun is_search :: "event \<Rightarrow> bool" where
  "is_search (Search n) = True"
| "is_search ev = False"

fun is_cache_get :: "event \<Rightarrow> bool" where
  "is_cache_get (CacheGet k) = True"
| "is_cache_get ev = False"

text \<open>
  The state of the process: the clock (\<^verbatim>\<open>time.time()\<close>, which a call reads as it
  stands), the two tables of \<^verbatim>\<open>ESIDB\<close>, the response cache \<^verbatim>\<open>api_cache\<close> (a value and
  its expiry instant by key) and the events so far.
\<close>

record world =
  clock :: int
  orders :: "order list"
  market_history :: "history list"
  api_cache :: "cache_key \<rightharpoonup> payload \<times> int"
  trace :: "event list"

subsection \<open>Actions\<close>

text \<open>
  A statement of the source is an action on the world that returns a value or raises; an
  exception leaves the world as it was when it was raised.
\<close>

type_synonym 'a action = "world \<Rightarrow> (error + 'a) \<times> world"

definition ret :: "'a \<Rightarrow> 'a action" where
  "ret x = (\<lambda>w. (Inr x, w))"

definition raise :: "error \<Rightarrow> 'a action" where
  "raise e = (\<lambda>w. (Inl e, w))"

definition bind_m :: "'a action \<Rightarrow> ('a \<Rightarrow> 'b action) \<Rightarrow> 'b action" where
  "bind_m m f = (\<lambda>w. case m w of (Inl e, w') \<Rightarrow> (Inl e, w') | (Inr x, w') \<Rightarrow> f x w')"

definition emit :: "event \<Rightarrow> unit action" where
  "emit ev = (\<lambda>w. (Inr (), w\<lparr>trace := trace w @ [ev]\<rparr>))"

definition call :: "event \<Rightarrow> 'a option \<Rightarrow> 'a action" where
  "call ev answer =
     bind_m (emit ev) (\<lambda>_. case answer of None \<Rightarrow> raise CollaboratorError | Some x \<Rightarrow> ret x)"

fun traverse :: "('a \<Rightarrow> 'b action) \<Rightarrow> 'a list \<Rightarrow> 'b list action" where
  "traverse f [] = ret []"
| "traverse f (x # xs) =
     bind_m (f x) (\<lambda>y. bind_m (traverse f xs) (\<lambda>ys. ret (y # ys)))"

definition time_time :: "int action" where
  "time_time = (\<lambda>w. (Inr (clock w), w))"

subsection \<open>ResponseCache\<close>

text \<open>
  Modelled from the spec: \<^verbatim>\<open>api_cache\<close> of \<^verbatim>\<open>src/data\<close> is not among the source
  files.  Section 4.2: \<^verbatim>\<open>get\<close> treats an entry whose expiry instant has passed as a
  miss; \<^verbatim>\<open>set\<close> takes an explicit time to live, or an expiry instant inherited from the
  remote source, or neither, and then 20 minutes apply.
\<close>

datatype expiry = TTL int | ExpiresAt int | NoExpiry

definition cache_lookup :: "world \<Rightarrow> cache_key \<Rightarrow> payload option" where
  "cache_lookup w key =
     (case api_cache w key of
        None \<Rightarrow> None
      | Some (v, expires_at) \<Rightarrow>
          if clock w \<le> expires_at \<and> v \<noteq> PyNone then Some v else None)"

definition api_cache_get :: "cache_key \<Rightarrow> payload option action" where
  "api_cache_get key = bind_m (emit (CacheGet key)) (\<lambda>_ w. (Inr (cache_lookup w key), w))"

definition expires_at_of :: "int \<Rightarrow> expiry \<Rightarrow> int" where
  "expires_at_of now e =
     (case e of TTL s \<Rightarrow> now + s | ExpiresAt t \<Rightarrow> t | NoExpiry \<Rightarrow> now + 1200)"

definition api_cache_set :: "cache_key \<Rightarrow> payload \<Rightarrow> expiry \<Rightarrow> unit action" where
  "api_cache_set key v e =
     bind_m (emit (CacheSet key)) (\<lambda>_ w.
       (Inr (), w\<lparr>api_cache := (api_cache w)(key \<mapsto> (v, expires_at_of (clock w) e))\<rparr>))"

text \<open>The expiry a query hands to the cache: \<^verbatim>\<open>headers.get("Expires")\<close>.\<close>

definition header_expiry :: "headers \<Rightarrow> expiry" where
  "header_expiry h = (case Expires h of None \<Rightarrow> NoExpiry | Some t \<Rightarrow> ExpiresAt t)"

subsection \<open>Store and remote accesses as actions\<close>

definition update_or_not_orders ::
  "int \<Rightarrow> nat \<Rightarrow> (order \<Rightarrow> bool) \<Rightarrow> (bool \<times> int option) action" where
  "update_or_not_orders threshold min_fresh_entry flt =
     bind_m (emit (Oracle ''orders'')) (\<lambda>_ w.
       (Inr (update_or_not threshold (orders w) retrieve_time min_fresh_entry True flt), w))"

definition update_or_not_history ::
  "int \<Rightarrow> (history \<Rightarrow> bool) \<Rightarrow> (bool \<times> int option) action" where
  "update_or_not_history threshold flt =
     bind_m (emit (Oracle ''market_history'')) (\<lambda>_ w.
       (Inr (update_or_not threshold (market_history w) h_date 1 False flt), w))"

definition select_orders ::
  "string \<Rightarrow> int option \<Rightarrow> int option \<Rightarrow> int option \<Rightarrow> int option \<Rightarrow> order list action" where
  "select_orders order_type tid rid lid rt =
     bind_m (emit (StoreRead ''orders'')) (\<lambda>_ w.
       (Inr (select_from_orders order_type tid rid lid rt (orders w)), w))"

definition to_sql_orders :: "order list \<Rightarrow> unit action" where
  "to_sql_orders df =
     bind_m (emit (StoreWrite ''orders'')) (\<lambda>_ w.
       (Inr (), w\<lparr>orders := orders_insert_update (orders w) df\<rparr>))"

definition to_sql_history :: "history list \<Rightarrow> unit action" where
  "to_sql_history df =
     bind_m (emit (StoreWrite ''market_history'')) (\<lambda>_ w.
       (Inr (), w\<lparr>market_history := history_insert_ignore (market_history w) df\<rparr>))"

definition ESIClient_head :: "remote \<Rightarrow> endpoint \<Rightarrow> headers action" where
  "ESIClient_head env ep = call (Head ep) (esi_head env ep)"

text \<open>
  \<^verbatim>\<open>ESIClient.get\<close> with \<^verbatim>\<open>async_loop=["page"]\<close>: one request per page, the record
  lists merged; a page that fails fails the call.
\<close>

definition all_pages :: "(int \<Rightarrow> 'a list option) \<Rightarrow> int list \<Rightarrow> 'a list option" where
  "all_pages page pages =
     (if list_all (\<lambda>p. page p \<noteq> None) pages
      then Some (concat (map (\<lambda>p. the (page p)) pages))
      else None)"

definition ESIClient_get_orders :: "remote \<Rightarrow> endpoint \<Rightarrow> int list \<Rightarrow> order list action" where
  "ESIClient_get_orders env ep pages =
     call (Get ep pages) (all_pages (esi_orders_page env ep) pages)"

definition ESIClient_get_types :: "remote \<Rightarrow> endpoint \<Rightarrow> int list \<Rightarrow> int list action" where
  "ESIClient_get_types env ep pages =
     call (Get ep pages) (all_pages (esi_types_page env ep) pages)"

text \<open>\<^verbatim>\<open>int(headers["X-Pages"])\<close> and \<^verbatim>\<open>range(1, x_pages + 1)\<close>.\<close>

definition x_pages_range :: "headers \<Rightarrow> int list action" where
  "x_pages_range h =
     (case X_Pages h of None \<Rightarrow> raise (KeyError ''X-Pages'') | Some n \<Rightarrow> ret [1..n])"

section \<open>The market queries\<close>

text \<open>Truth values of Python: \<^verbatim>\<open>None\<close>, \<^verbatim>\<open>0\<close>, \<^verbatim>\<open>""\<close> and \<^verbatim>\<open>[]\<close> are false.\<close>

definition truthy_str :: "string option \<Rightarrow> bool" where
  "truthy_str c = (case c of None \<Rightarrow> False | Some s \<Rightarrow> s \<noteq> [])"

definition truthy_int :: "int option \<Rightarrow> bool" where
  "truthy_int x = (case x of None \<Rightarrow> False | Some i \<Rightarrow> i \<noteq> 0)"

definition truthy_payload :: "payload option \<Rightarrow> bool" where
  "truthy_payload v = (case v of None \<Rightarrow> False | Some PyNone \<Rightarrow> False
                        | Some (TypeIds xs) \<Rightarrow> xs \<noteq> [] | Some _ \<Rightarrow> True)"

text \<open>
  \<^verbatim>\<open>df.sort_values(["type_id", "is_buy_order", "price"])\<close> of pandas: a frame built from
  no record has no column, and sorting it by a column raises \<^verbatim>\<open>KeyError\<close>.
\<close>

definition sort_values :: "order list \<Rightarrow> order list action" where
  "sort_values df =
     (if df = [] then raise (KeyError ''type_id'')
      else ret (sort_key (\<lambda>r. (type_id r, is_buy_order r, price r)) df))"

text \<open>Lines 105 to 111 and 244 to 250: all pages, or the page asked for.\<close>

definition pages_of :: "int \<Rightarrow> headers \<Rightarrow> int list action" where
  "pages_of page h = (if page = - 1 then x_pages_range h else ret [page])"

text \<open>
  \<^verbatim>\<open>get_structure_market\<close>, lines 58 to 146, in two parts: what the function does once
  the response cache has missed (lines 85 to 146), and the function itself.
\<close>

definition structure_market_update ::
  "remote \<Rightarrow> int \<Rightarrow> headers \<Rightarrow> cache_key \<Rightarrow> kwd \<Rightarrow> payload action" where
  "structure_market_update env sid headers key kwd =
     (let update_threshold = kwd_get kwd ''update_threshold'';
          expires = (if truthy_int update_threshold
                     then TTL (the update_threshold) else header_expiry headers);
          update_threshold = (if truthy_int update_threshold
                              then the update_threshold else 1200)
      in
      bind_m time_time (\<lambda>now.
      bind_m (update_or_not_orders (now - update_threshold) 1000
                (\<lambda>r. location_id r = sid)) (\<lambda>(update_flag, retrieve_time).
      if \<not> update_flag
      then bind_m (select_orders ''all'' None None (Some sid) retrieve_time)
             (\<lambda>df. ret (Orders df))
      else
        bind_m (pages_of (case kwd_get kwd ''page'' of None \<Rightarrow> - 1 | Some p \<Rightarrow> p)
                  headers) (\<lambda>pages.
        bind_m (ESIClient_get_orders env (StructureOrders sid) pages) (\<lambda>all_orders.
        bind_m time_time (\<lambda>now.
        let df = map (\<lambda>r. r\<lparr>retrieve_time := now,
                             region_id := (case kwd_get kwd ''region_id'' of
                                             None \<Rightarrow> 0 | Some x \<Rightarrow> x),
                             system_id := (case kwd_get kwd ''system_id'' of
                                             None \<Rightarrow> 0 | Some x \<Rightarrow> x)\<rparr>) all_orders
        in
        bind_m (sort_values df) (\<lambda>df.
        bind_m (to_sql_orders df) (\<lambda>_.
        bind_m (api_cache_set key (Orders df) expires) (\<lambda>_.
        ret (Orders df))))))))))"

definition get_structure_market :: "remote \<Rightarrow> pyval \<Rightarrow> string option \<Rightarrow> kwd \<Rightarrow> payload action" where
  "get_structure_market env structure_name_or_id cname kwd =
     (case structure_name_or_id of
        PyOther \<Rightarrow> raise TypeError
      | _ \<Rightarrow>
        let sid = (case structure_name_or_id of PyInt i \<Rightarrow> i \<noteq> 0 | _ \<Rightarrow> False) in
        if \<not> sid \<and> \<not> truthy_str cname then raise ValueError_cname
        else
          bind_m (call (Search ''search_structure_id'')
                    (search_structure_id env structure_name_or_id cname)) (\<lambda>sid.
          bind_m (ESIClient_head env (StructureOrders sid)) (\<lambda>headers.
          let key = make_cache_key ''get_structure_market'' [KInt sid] kwd in
          bind_m (api_cache_get key) (\<lambda>value.
          case value of
            Some v \<Rightarrow> ret v
          | None \<Rightarrow> structure_market_update env sid headers key kwd))))"

text \<open>
  \<^verbatim>\<open>get_region_market\<close>, lines 192 to 284, in the same two parts (lines 223 to 284,
  and the function itself).
\<close>

definition region_market_update ::
  "remote \<Rightarrow> int \<Rightarrow> string \<Rightarrow> int option \<Rightarrow> headers \<Rightarrow> cache_key \<Rightarrow> int \<Rightarrow> int option
     \<Rightarrow> payload action" where
  "region_market_update env rid order_type tid headers key page update_threshold =
     (let expires = (if truthy_int update_threshold
                     then TTL (the update_threshold) else header_expiry headers);
          update_threshold = (if truthy_int update_threshold
                              then the update_threshold else 1200)
      in
      bind_m time_time (\<lambda>now.
      bind_m (update_or_not_orders (now - update_threshold) 1000
                (\<lambda>r. region_id r = rid)) (\<lambda>(update_flag, retrieve_time).
      if \<not> update_flag
      then bind_m (select_orders order_type tid (Some rid) None retrieve_time)
             (\<lambda>df. ret (Orders df))
      else
        bind_m (pages_of page headers) (\<lambda>pages.
        bind_m (ESIClient_get_orders env (RegionOrders rid order_type tid) pages)
          (\<lambda>all_orders.
        bind_m time_time (\<lambda>now.
        let df = map (\<lambda>r. r\<lparr>retrieve_time := now, region_id := rid\<rparr>) all_orders in
        bind_m (sort_values df) (\<lambda>df.
        bind_m (to_sql_orders df) (\<lambda>_.
        bind_m (api_cache_set key (Orders df) expires) (\<lambda>_.
        ret (Orders df))))))))))"

definition get_region_market ::
  "remote \<Rightarrow> pyval \<Rightarrow> string \<Rightarrow> int option \<Rightarrow> kwd \<Rightarrow> payload action" where
  "get_region_market env region_name_or_id order_type tid kwd =
     bind_m (case region_name_or_id of
               PyStr s \<Rightarrow> call (Search ''search_id'') (search_id env s ''region'')
             | PyInt i \<Rightarrow> ret i
             | PyOther \<Rightarrow> raise TypeError) (\<lambda>rid.
     if order_type \<notin> set [''sell'', ''buy'', ''all''] then raise ValueError_order_type
     else
       let page = (case kwd_get kwd ''page'' of None \<Rightarrow> - 1 | Some p \<Rightarrow> p);
           update_threshold = kwd_get kwd ''update_threshold''
       in
       bind_m (ESIClient_head env (RegionOrders rid order_type tid)) (\<lambda>headers.
       let key = make_cache_key ''get_region_market''
                   [KInt rid, KStr order_type, key_of_opt tid] kwd in
       bind_m (api_cache_get key) (\<lambda>value.
       case value of
         Some v \<Rightarrow> ret v
       | None \<Rightarrow>
           region_market_update env rid order_type tid headers key page update_threshold)))"

text \<open>\<^verbatim>\<open>get_station_market\<close>, lines 321 to 360.\<close>

definition get_station_market ::
  "remote \<Rightarrow> pyval \<Rightarrow> string \<Rightarrow> int option \<Rightarrow> kwd \<Rightarrow> payload action" where
  "get_station_market env station_name_or_id order_type tid kwd =
     bind_m (case station_name_or_id of
               PyInt i \<Rightarrow> ret i
             | PyStr s \<Rightarrow> call (Search ''search_id'') (search_id env s ''station'')
             | PyOther \<Rightarrow> raise TypeError) (\<lambda>station_id.
     if order_type \<notin> set [''sell'', ''buy'', ''all''] then raise ValueError_order_type
     else
       bind_m (call (Search ''search_station_region_id'')
                 (search_station_region_id env station_id)) (\<lambda>region_id'.
       let update_threshold = (case kwd_get kwd ''update_threshold'' of
                                 None \<Rightarrow> 1200 | Some t \<Rightarrow> t) in
       bind_m time_time (\<lambda>now.
       bind_m (update_or_not_orders (now - update_threshold) 1000
                 (\<lambda>r. region_id r = region_id' \<and> location_id r = station_id))
         (\<lambda>(no_update_flag, retrieve_time).
       bind_m (if \<not> no_update_flag
               then bind_m (get_region_market env (PyInt region_id') order_type tid
                              [(''update_threshold'', update_threshold)]) (\<lambda>_. ret ())
               else ret ()) (\<lambda>_.
       bind_m (select_orders order_type tid (Some region_id') (Some station_id) retrieve_time)
         (\<lambda>df. ret (Orders df)))))))"

text \<open>\<^verbatim>\<open>get_jita_market\<close>, lines 370 to 372.\<close>

definition get_jita_market :: "remote \<Rightarrow> string \<Rightarrow> int option \<Rightarrow> payload action" where
  "get_jita_market env order_type tid =
     get_station_market env (PyStr ''Jita IV - Moon 4 - Caldari Navy Assembly Plant'')
       order_type tid []"

subsection \<open>History\<close>

text \<open>
  The frame built from a history response (lines 436 to 446): the type and the region
  are added and every date is converted; a date that does not parse raises.
\<close>

definition history_frame :: "int \<Rightarrow> int \<Rightarrow> raw_history list \<Rightarrow> history list action" where
  "history_frame rid tid resp =
     (if list_all (\<lambda>r. date_to_epoch (raw_date r) \<noteq> None) resp
      then ret (map (\<lambda>r. \<lparr>h_region_id = rid, h_type_id = tid,
                           h_date = the (date_to_epoch (raw_date r)),
                           average = raw_average r, highest = raw_highest r,
                           lowest = raw_lowest r, volume = raw_volume r,
                           order_count = raw_order_count r\<rparr>) resp)
      else raise ValueError_date)"

definition apply_reduces :: "reducer option \<Rightarrow> int \<Rightarrow> int \<Rightarrow> history list \<Rightarrow> history list" where
  "apply_reduces reduces rid tid df =
     (case reduces of
        None \<Rightarrow> df
      | Some (Reducer n f) \<Rightarrow> map (\<lambda>h. h\<lparr>h_type_id := tid, h_region_id := rid\<rparr>) (f df))"

text \<open>
  \<^verbatim>\<open>_get_type_history_async\<close>, lines 407 to 460.  The result is a frame or \<^verbatim>\<open>None\<close>.
\<close>

definition get_type_history_async ::
  "remote \<Rightarrow> int \<Rightarrow> int \<Rightarrow> reducer option \<Rightarrow> history list option action" where
  "get_type_history_async env rid tid reduces =
     bind_m time_time (\<lambda>now.
     bind_m (update_or_not_history (now - 2 * 24 * 3600)
               (\<lambda>h. h_region_id h = rid \<and> h_type_id h = tid)) (\<lambda>(update_flag, _).
     if \<not> update_flag
     then bind_m (emit (StoreRead ''market_history'')) (\<lambda>_ w.
            (Inr (Some (apply_reduces reduces rid tid
                    (filter (\<lambda>h. h_region_id h = rid \<and> h_type_id h = tid)
                       (market_history w)))), w))
     else
       bind_m (call (CheckType tid) (check_type_id env tid)) (\<lambda>valid.
       if \<not> valid then ret None
       else
         bind_m (call (Request (RegionHistory rid tid)) (esi_history env (RegionHistory rid tid)))
           (\<lambda>resp.
         if length resp = 0 then ret None
         else
           bind_m (history_frame rid tid resp) (\<lambda>df.
           bind_m (to_sql_history df) (\<lambda>_.
           ret (Some (apply_reduces reduces rid tid df))))))))"

definition payload_of_frame :: "history list option \<Rightarrow> payload" where
  "payload_of_frame df = (case df of None \<Rightarrow> PyNone | Some rows \<Rightarrow> Histories rows)"

text \<open>\<^verbatim>\<open>get_type_history\<close>, lines 471 to 493.\<close>

definition get_type_history ::
  "remote \<Rightarrow> pyval \<Rightarrow> int \<Rightarrow> reducer option \<Rightarrow> payload action" where
  "get_type_history env region_name_or_id tid reduces =
     bind_m (case region_name_or_id of
               PyStr s \<Rightarrow> call (Search ''search_id'') (search_id env s ''region'')
             | PyInt i \<Rightarrow> ret i
             | PyOther \<Rightarrow> raise TypeError) (\<lambda>rid.
     let key = make_cache_key ''get_type_history''
                 [KInt rid, KInt tid, key_of_reducer reduces] [] in
     bind_m (api_cache_get key) (\<lambda>value.
     case value of
       Some v \<Rightarrow> ret v
     | None \<Rightarrow>
       bind_m (ESIClient_head env (RegionHistory rid tid)) (\<lambda>headers.
       let expires = header_expiry headers in
       bind_m (get_type_history_async env rid tid reduces) (\<lambda>df.
       bind_m (api_cache_set key (payload_of_frame df) expires) (\<lambda>_.
       ret (payload_of_frame df))))))"

text \<open>\<^verbatim>\<open>get_region_types\<close>, lines 579 to 613.\<close>

definition get_region_types :: "remote \<Rightarrow> pyval \<Rightarrow> string \<Rightarrow> int list action" where
  "get_region_types env region_name_or_id src =
     bind_m (case region_name_or_id of
               PyStr s \<Rightarrow> call (Search ''search_id'') (search_id env s ''region'')
             | PyInt i \<Rightarrow> ret i
             | PyOther \<Rightarrow> raise TypeError) (\<lambda>rid.
     let key = make_cache_key ''get_region_types'' [KInt rid, KStr src] [] in
     bind_m (api_cache_get key) (\<lambda>value.
     if truthy_payload value
     then ret (case value of Some (TypeIds xs) \<Rightarrow> xs | _ \<Rightarrow> [])
     else
       bind_m (ESIClient_head env (RegionTypes rid)) (\<lambda>headers.
       let expires = header_expiry headers in
       bind_m (if src = ''esi''
               then bind_m (x_pages_range headers) (\<lambda>pages.
                      ESIClient_get_types env (RegionTypes rid) pages)
               else if src = ''db''
               then bind_m (emit (StoreRead ''orders'')) (\<lambda>_ w.
                      (Inr (remdups (map type_id (filter (\<lambda>r. region_id r = rid) (orders w)))),
                       w))
               else raise UnboundLocalError) (\<lambda>resp.
       bind_m (api_cache_set key (TypeIds resp) expires) (\<lambda>_.
       ret resp)))))"

text \<open>
  \<^verbatim>\<open>pd.concat(ret, ignore_index=True)\<close> of pandas: \<^verbatim>\<open>None\<close> entries are dropped, and
  a list with no frame in it (an empty list, or \<^verbatim>\<open>None\<close> only) raises
  \<^verbatim>\<open>ValueError\<close>.
\<close>

definition pd_concat :: "history list option list \<Rightarrow> history list action" where
  "pd_concat objs =
     (if list_all (\<lambda>x. x = None) objs then raise ValueError_concat
      else ret (concat (map (\<lambda>x. case x of None \<Rightarrow> [] | Some rows \<Rightarrow> rows) objs)))"

text \<open>
  \<^verbatim>\<open>get_market_history\<close>, lines 525 to 558.  The tasks handed to
  \<^verbatim>\<open>asyncio.gather\<close> run on one thread; the model runs them in the order of
  \<^verbatim>\<open>type_ids\<close>, and the first exception ends the call.
\<close>

definition get_market_history ::
  "remote \<Rightarrow> pyval \<Rightarrow> int list option \<Rightarrow> reducer option \<Rightarrow> payload action" where
  "get_market_history env region_name_or_id type_ids reduces =
     bind_m (case region_name_or_id of
               PyStr s \<Rightarrow> call (Search ''search_id'') (search_id env s ''region'')
             | PyInt i \<Rightarrow> ret i
             | PyOther \<Rightarrow> raise TypeError) (\<lambda>rid.
     bind_m (if type_ids = None \<or> type_ids = Some []
             then bind_m (get_region_types env (PyInt rid) ''esi'') (\<lambda>tys.
                    ret (tys, make_cache_key ''get_market_history''
                                [KInt rid, KStr ''all_type_ids'', key_of_reducer reduces] []))
             else ret (the type_ids, make_cache_key ''get_market_history''
                                [KInt rid, KInts (the type_ids), key_of_reducer reduces] []))
       (\<lambda>(type_ids, key).
     bind_m (api_cache_get key) (\<lambda>value.
     case value of
       Some v \<Rightarrow> ret v
     | None \<Rightarrow>
       bind_m (ESIClient_head env (RegionHistory rid 12005)) (\<lambda>headers.
       let expires = header_expiry headers in
       bind_m (traverse (\<lambda>type_id. get_type_history_async env rid type_id reduces) type_ids)
         (\<lambda>ret'.
       bind_m (pd_concat ret') (\<lambda>df.
       bind_m (api_cache_set key (Histories df) expires) (\<lambda>_.
       ret (Histories df))))))))"

text \<open>A world at rest, before any call.\<close>

definition init_world :: "int \<Rightarrow> order list \<Rightarrow> history list \<Rightarrow> world" where
  "init_world now os hs =
     \<lparr>clock = now, orders = os, market_history = hs, api_cache = Map.empty, trace = []\<rparr>"

section \<open>Observing a call\<close>

text \<open>The events a call adds to the trace of the world it starts in.\<close>

definition run_events :: "'a action \<Rightarrow> world \<Rightarrow> event list" where
  "run_events m w = drop (length (trace w)) (trace (snd (m w)))"

text \<open>
  Scanning the events of a call in order, a \<open>Head\<close> request is met before any read of the
  response cache.
\<close>

fun head_before_cache :: "event list \<Rightarrow> bool" where
  "head_before_cache [] = True"
| "head_before_cache (Head e # evs) = True"
| "head_before_cache (CacheGet k # evs) = False"
| "head_before_cache (ev # evs) = head_before_cache evs"

text \<open>
  An action that only extends the trace, by events that all satisfy \<open>N\<close>, and that raises
  only errors that satisfy \<open>E\<close>.
\<close>

definition only :: "(event \<Rightarrow> bool) \<Rightarrow> (error \<Rightarrow> bool) \<Rightarrow> 'a action \<Rightarrow> bool" where
  "only N E m =
     (\<forall>w. (\<exists>evs. trace (snd (m w)) = trace w @ evs \<and> list_all N evs)
        \<and> (\<forall>e. fst (m w) = Inl e \<longrightarrow> E e))"

text \<open>
  What a query may do after the response cache has missed: decide freshness, read and
  write the store, fetch pages and fill the cache; and the errors it may then raise.
\<close>

definition update_event :: "event \<Rightarrow> bool" where
  "update_event ev = (case ev of Oracle t \<Rightarrow> True | StoreRead t \<Rightarrow> True | StoreWrite t \<Rightarrow> True
                       | Get e ps \<Rightarrow> True | CacheSet k \<Rightarrow> True | _ \<Rightarrow> False)"

definition update_error :: "error \<Rightarrow> bool" where
  "update_error e = (case e of KeyError k \<Rightarrow> True | CollaboratorError \<Rightarrow> True | _ \<Rightarrow> False)"

section \<open>A concrete world\<close>

text \<open>
  One sell order of Tritanium in Jita, a remote source that serves it on every page, one
  day of history for the type 34 (the only published type), and a store holding a
  thousand orders of the region The Forge, all retrieved at the instant 900.
\<close>

definition example_order :: order where
  "example_order =
     \<lparr>order_id = 1, type_id = 34, region_id = 0, location_id = 60003760,
      system_id = 30000142, is_buy_order = False, price = 5, volume_remain = 10,
      duration = 90, issued = 50, retrieve_time = 0\<rparr>"

definition example_day :: raw_history where
  "example_day =
     \<lparr>raw_date = ''2022-05-28'', raw_average = 5, raw_highest = 6, raw_lowest = 4,
      raw_volume = 1000, raw_order_count = 20\<rparr>"

definition example_history :: history where
  "example_history =
     \<lparr>h_region_id = 10000002, h_type_id = 34, h_date = 1653735900, average = 5,
      highest = 6, lowest = 4, volume = 1000, order_count = 20\<rparr>"

definition example_env :: remote where
  "example_env =
     \<lparr>search_id = (\<lambda>n k. if n = ''The Forge'' then Some 10000002 else None),
      search_structure_id = (\<lambda>x c. case x of PyInt i \<Rightarrow> Some i | PyStr s \<Rightarrow> Some 77
                                      | PyOther \<Rightarrow> None),
      search_station_region_id = (\<lambda>s. Some 10000002),
      check_type_id = (\<lambda>t. Some (t = 34)),
      esi_head = (\<lambda>ep. Some \<lparr>Expires = Some 2000, X_Pages = Some 1\<rparr>),
      esi_orders_page = (\<lambda>ep p. Some [example_order]),
      esi_types_page = (\<lambda>ep p. Some [34, 35]),
      esi_history = (\<lambda>ep. Some [example_day])\<rparr>"


text \<open>The same remote source seen from a world whose response cache holds two answers.\<close>

definition cached_world :: world where
  "cached_world =
     \<lparr>clock = 1000, orders = [], market_history = [],
      api_cache =
        [make_cache_key ''get_structure_market'' [KInt 5] [] \<mapsto> (Orders [example_order], 2000),
         make_cache_key ''get_region_market'' [KInt 10000002, KStr ''all'', KNone] []
           \<mapsto> (Orders [example_order], 2000)],
      trace = []\<rparr>"

section \<open>Properties of the FreshnessOracle\<close>

lemma fold_max_Max:
  "fold (\<lambda>x m. max (f x) m) xs (a::int) = Max (insert a (f ` set xs))"
proof (induction xs arbitrary: a)
  case Nil
  show ?case by simp
next
  case (Cons x xs)
  have "Max (insert (max (f x) a) (f ` set xs)) = Max (insert a (insert (f x) (f ` set xs)))"
  proof (cases "set xs = {}")
    case True
    then show ?thesis by (simp add: max.commute)
  next
    case False
    then show ?thesis by (simp add: max.assoc max.left_commute max.commute)
  qed
  with Cons show ?case by simp
qed

lemma max_timestamp_None: "(max_timestamp c flt t = None) = (filter flt t = [])"
  by (simp add: max_timestamp_def split: list.splits)

lemma max_timestamp_Max:
  "filter flt t \<noteq> [] \<Longrightarrow> max_timestamp c flt t = Some (Max (c ` {r \<in> set t. flt r}))"
proof -
  assume ne: "filter flt t \<noteq> []"
  then obtain r rs where f: "filter flt t = r # rs" by (cases "filter flt t") auto
  have "{r \<in> set t. flt r} = set (filter flt t)" by auto
  then have "c ` {r \<in> set t. flt r} = insert (c r) (c ` set rs)" using f by simp
  then show ?thesis by (simp add: max_timestamp_def f fold_max_Max)
qed

text \<open>
  C1.  With \<open>T\<close> the threshold, \<open>M\<close> the maximum of the timestamp column among the rows
  matching the filter and the count of matching rows whose timestamp is \<open>M\<close>: the flag
  returned by the freshness decision is true exactly when no row matches (\<open>M\<close> absent),
  or \<open>M < T\<close>, or the fresh-entry check is enabled and fewer than \<open>min_fresh_entry\<close>
  matching rows carry the timestamp \<open>M\<close>; when the flag is false, the maximum found is
  the timestamp returned.
\<close>

theorem update_or_not_decision:
  "fst (update_or_not T table col min_fresh_entry fresh_entry_check flt) =
     (filter flt table = [] \<or>
      Max (col ` {r \<in> set table. flt r}) < T \<or>
      (fresh_entry_check \<and>
       length (filter (\<lambda>r. flt r \<and> col r = Max (col ` {r \<in> set table. flt r})) table)
         < min_fresh_entry))
   \<and> (\<not> fst (update_or_not T table col min_fresh_entry fresh_entry_check flt) \<longrightarrow>
        snd (update_or_not T table col min_fresh_entry fresh_entry_check flt) =
          Some (Max (col ` {r \<in> set table. flt r})))"
proof (cases "filter flt table = []")
  case True
  then have "max_timestamp col flt table = None" by (simp add: max_timestamp_None)
  with True show ?thesis by (simp add: update_or_not_def)
next
  case False
  then have "max_timestamp col flt table = Some (Max (col ` {r \<in> set table. flt r}))"
    by (rule max_timestamp_Max)
  with False show ?thesis by (simp add: update_or_not_def count_at_def)
qed

theorem update_or_not_decision_witness:
  "fst (update_or_not 150 [(1::int, 100::int), (1, 200), (2, 300)] snd 1 True (\<lambda>r. fst r = 1))
     = False
   \<and> snd (update_or_not 150 [(1::int, 100::int), (1, 200), (2, 300)] snd 1 True (\<lambda>r. fst r = 1))
     = Some 200"
  using update_or_not_decision [of 150 "[(1::int, 100::int), (1, 200), (2, 300)]" snd 1 True
      "\<lambda>r. fst r = 1"]
  by (simp add: update_or_not_def max_timestamp_def count_at_def)

section \<open>Running actions step by step\<close>

lemma bind_ret [simp]: "bind_m (ret x) f = f x"
  by (simp add: bind_m_def ret_def)

lemma bind_raise [simp]: "bind_m (raise e) f = raise e"
  by (simp add: bind_m_def raise_def)

lemma ret_apply: "ret x w = (Inr x, w)"
  by (simp add: ret_def)

lemma raise_apply: "raise e w = (Inl e, w)"
  by (simp add: raise_def)

lemma bind_emit: "bind_m (emit ev) f w = f () (w\<lparr>trace := trace w @ [ev]\<rparr>)"
  by (simp add: bind_m_def emit_def)

lemma bind_call:
  "bind_m (call ev a) f w =
     (case a of None \<Rightarrow> (Inl CollaboratorError, w\<lparr>trace := trace w @ [ev]\<rparr>)
      | Some x \<Rightarrow> f x (w\<lparr>trace := trace w @ [ev]\<rparr>))"
  by (simp add: call_def bind_m_def emit_def raise_def ret_def split: option.splits)

lemma call_apply:
  "call ev a w =
     (case a of None \<Rightarrow> (Inl CollaboratorError, w\<lparr>trace := trace w @ [ev]\<rparr>)
      | Some x \<Rightarrow> (Inr x, w\<lparr>trace := trace w @ [ev]\<rparr>))"
  by (simp add: call_def bind_m_def emit_def raise_def ret_def split: option.splits)

lemma bind_time: "bind_m time_time f w = f (clock w) w"
  by (simp add: bind_m_def time_time_def)

lemma cache_lookup_trace [simp]: "cache_lookup (w\<lparr>trace := t\<rparr>) key = cache_lookup w key"
  by (simp add: cache_lookup_def split: option.splits)

lemma bind_cache_get:
  "bind_m (api_cache_get key) f w =
     f (cache_lookup w key) (w\<lparr>trace := trace w @ [CacheGet key]\<rparr>)"
  by (simp add: api_cache_get_def bind_m_def emit_def)

lemma bind_cache_set:
  "bind_m (api_cache_set key v e) f w =
     f () (w\<lparr>trace := trace w @ [CacheSet key],
            api_cache := (api_cache w)(key \<mapsto> (v, expires_at_of (clock w) e))\<rparr>)"
  by (simp add: api_cache_set_def bind_m_def emit_def)

lemma bind_oracle_orders:
  "bind_m (update_or_not_orders T n flt) f w =
     f (update_or_not T (orders w) retrieve_time n True flt)
       (w\<lparr>trace := trace w @ [Oracle ''orders'']\<rparr>)"
  by (simp add: update_or_not_orders_def bind_m_def emit_def)

lemma bind_oracle_history:
  "bind_m (update_or_not_history T flt) f w =
     f (update_or_not T (market_history w) h_date 1 False flt)
       (w\<lparr>trace := trace w @ [Oracle ''market_history'']\<rparr>)"
  by (simp add: update_or_not_history_def bind_m_def emit_def)

lemma bind_select_orders:
  "bind_m (select_orders ot tid rid lid rt) f w =
     f (select_from_orders ot tid rid lid rt (orders w))
       (w\<lparr>trace := trace w @ [StoreRead ''orders'']\<rparr>)"
  by (simp add: select_orders_def bind_m_def emit_def)

lemma bind_to_sql_orders:
  "bind_m (to_sql_orders df) f w =
     f () (w\<lparr>trace := trace w @ [StoreWrite ''orders''],
            orders := orders_insert_update (orders w) df\<rparr>)"
  by (simp add: to_sql_orders_def bind_m_def emit_def)

lemma bind_to_sql_history:
  "bind_m (to_sql_history df) f w =
     f () (w\<lparr>trace := trace w @ [StoreWrite ''market_history''],
            market_history := history_insert_ignore (market_history w) df\<rparr>)"
  by (simp add: to_sql_history_def bind_m_def emit_def)

lemmas run_simps =
  bind_emit bind_call bind_time bind_cache_get bind_cache_set bind_oracle_orders
  bind_oracle_history bind_select_orders bind_to_sql_orders bind_to_sql_history
  ret_apply raise_apply call_apply

section \<open>Rules for only\<close>

lemma only_ret [simp, intro!]: "only N E (ret x)"
  by (simp add: only_def ret_def)

lemma only_raise [intro!]: "E e \<Longrightarrow> only N E (raise e)"
  by (simp add: only_def raise_def)

lemma only_emit [intro!]: "N ev \<Longrightarrow> only N E (emit ev)"
  by (simp add: only_def emit_def)

lemma only_bind [intro!]:
  assumes "only N E m" and "\<And>x. only N E (f x)"
  shows "only N E (bind_m m f)"
  unfolding only_def
proof (intro allI)
  fix w
  obtain r w1 where mw: "m w = (r, w1)" by (cases "m w")
  from assms(1) obtain evs where e1: "trace w1 = trace w @ evs" "list_all N evs"
    and er: "\<And>e. r = Inl e \<Longrightarrow> E e"
    using mw unfolding only_def by (metis fst_conv snd_conv)
  show "(\<exists>evs. trace (snd (bind_m m f w)) = trace w @ evs \<and> list_all N evs) \<and>
        (\<forall>e. fst (bind_m m f w) = Inl e \<longrightarrow> E e)"
  proof (cases r)
    case (Inl e)
    then show ?thesis using mw e1 er by (auto simp: bind_m_def)
  next
    case (Inr x)
    from assms(2)[of x] obtain evs2 where e2: "trace (snd (f x w1)) = trace w1 @ evs2" "list_all N evs2"
      and er2: "\<And>e. fst (f x w1) = Inl e \<Longrightarrow> E e"
      unfolding only_def by metis
    have "bind_m m f w = f x w1" using mw Inr by (simp add: bind_m_def)
    then show ?thesis using e1 e2 er2 by auto
  qed
qed

lemma only_call [intro!]: "N ev \<Longrightarrow> E CollaboratorError \<Longrightarrow> only N E (call ev a)"
  unfolding call_def by (cases a) (auto simp: only_raise)

lemma only_read [intro!]: "only N E (\<lambda>w. (Inr (g w), w))"
  by (simp add: only_def)

lemma only_write: "(\<And>w. trace (h w) = trace w) \<Longrightarrow> only N E (\<lambda>w. (Inr x, h w))"
  by (simp add: only_def)

lemma only_time [intro!]: "only N E time_time"
  by (simp add: only_def time_time_def)

lemma only_cache_set [intro!]: "N (CacheSet key) \<Longrightarrow> only N E (api_cache_set key v e)"
  unfolding api_cache_set_def by (intro only_bind only_emit only_write) simp_all

lemma only_cache_get [intro!]: "N (CacheGet key) \<Longrightarrow> only N E (api_cache_get key)"
  unfolding api_cache_get_def by (intro only_bind only_emit only_read) simp_all

lemma only_oracle_orders [intro!]: "N (Oracle ''orders'') \<Longrightarrow> only N E (update_or_not_orders T n flt)"
  unfolding update_or_not_orders_def by (intro only_bind only_emit only_read) simp_all

lemma only_oracle_history [intro!]:
  "N (Oracle ''market_history'') \<Longrightarrow> only N E (update_or_not_history T flt)"
  unfolding update_or_not_history_def by (intro only_bind only_emit only_read) simp_all

lemma only_select_orders [intro!]:
  "N (StoreRead ''orders'') \<Longrightarrow> only N E (select_orders ot tid rid lid rt)"
  unfolding select_orders_def by (intro only_bind only_emit only_read) simp_all

lemma only_to_sql_orders [intro!]: "N (StoreWrite ''orders'') \<Longrightarrow> only N E (to_sql_orders df)"
  unfolding to_sql_orders_def by (intro only_bind only_emit only_write) simp_all

lemma only_to_sql_history [intro!]:
  "N (StoreWrite ''market_history'') \<Longrightarrow> only N E (to_sql_history df)"
  unfolding to_sql_history_def by (intro only_bind only_emit only_write) simp_all

lemma only_x_pages [intro!]: "E (KeyError ''X-Pages'') \<Longrightarrow> only N E (x_pages_range h)"
  unfolding x_pages_range_def by (cases "X_Pages h") (auto simp: only_raise)

lemma only_pages_of [intro!]: "E (KeyError ''X-Pages'') \<Longrightarrow> only N E (pages_of p h)"
  unfolding pages_of_def by auto

lemma only_sort_values [intro!]: "E (KeyError ''type_id'') \<Longrightarrow> only N E (sort_values df)"
  unfolding sort_values_def by auto

lemma only_get_orders [intro!]:
  "N (Get ep pages) \<Longrightarrow> E CollaboratorError \<Longrightarrow> only N E (ESIClient_get_orders env ep pages)"
  unfolding ESIClient_get_orders_def by auto

lemma only_head [intro!]:
  "N (Head ep) \<Longrightarrow> E CollaboratorError \<Longrightarrow> only N E (ESIClient_head env ep)"
  unfolding ESIClient_head_def by auto

lemma only_structure_update:
  "only update_event update_error (structure_market_update env sid headers key kwd)"
  unfolding structure_market_update_def Let_def
  by (auto simp: update_event_def update_error_def split: prod.splits)

lemma only_region_update:
  "only update_event update_error (region_market_update env rid ot tid headers key page ut)"
  unfolding region_market_update_def Let_def
  by (auto simp: update_event_def update_error_def split: prod.splits)

lemma only_weaken:
  "only N E m \<Longrightarrow> (\<And>ev. N ev \<Longrightarrow> N' ev) \<Longrightarrow> (\<And>e. E e \<Longrightarrow> E' e) \<Longrightarrow> only N' E' m"
  unfolding only_def list_all_iff by blast

lemma only_events:
  "only N E m \<Longrightarrow> \<exists>evs. trace (snd (m w)) = trace w @ evs \<and> list_all N evs"
  by (simp add: only_def)

lemma only_errors: "only N E m \<Longrightarrow> fst (m w) = Inl e \<Longrightarrow> E e"
  by (simp add: only_def)

lemma run_events_eq: "trace (snd (m w)) = trace w @ evs \<Longrightarrow> run_events m w = evs"
  by (simp add: run_events_def)

lemma structure_path:
  assumes "x \<noteq> PyOther" and "(case x of PyInt i \<Rightarrow> i \<noteq> 0 | _ \<Rightarrow> False) \<or> truthy_str c"
  shows "get_structure_market env x c kwd w =
     (case search_structure_id env x c of
        None \<Rightarrow> (Inl CollaboratorError, w\<lparr>trace := trace w @ [Search ''search_structure_id'']\<rparr>)
      | Some sid \<Rightarrow>
        (case esi_head env (StructureOrders sid) of
           None \<Rightarrow> (Inl CollaboratorError,
                     w\<lparr>trace := trace w @ [Search ''search_structure_id'', Head (StructureOrders sid)]\<rparr>)
         | Some h \<Rightarrow>
           (case cache_lookup w (make_cache_key ''get_structure_market'' [KInt sid] kwd) of
              Some v \<Rightarrow> (Inr v, w\<lparr>trace := trace w @ [Search ''search_structure_id'',
                              Head (StructureOrders sid),
                              CacheGet (make_cache_key ''get_structure_market'' [KInt sid] kwd)]\<rparr>)
            | None \<Rightarrow> structure_market_update env sid h
                        (make_cache_key ''get_structure_market'' [KInt sid] kwd) kwd
                        (w\<lparr>trace := trace w @ [Search ''search_structure_id'',
                              Head (StructureOrders sid),
                              CacheGet (make_cache_key ''get_structure_market'' [KInt sid] kwd)]\<rparr>))))"
proof -
  have v: "\<not> (\<not> (case x of PyInt i \<Rightarrow> i \<noteq> 0 | _ \<Rightarrow> False) \<and> \<not> truthy_str c)"
    using assms(2) by blast
  have "get_structure_market env x c kwd =
          bind_m (call (Search ''search_structure_id'') (search_structure_id env x c)) (\<lambda>sid.
          bind_m (ESIClient_head env (StructureOrders sid)) (\<lambda>headers.
          bind_m (api_cache_get (make_cache_key ''get_structure_market'' [KInt sid] kwd)) (\<lambda>value.
          case value of
            Some v \<Rightarrow> ret v
          | None \<Rightarrow> structure_market_update env sid headers
                      (make_cache_key ''get_structure_market'' [KInt sid] kwd) kwd)))"
    using assms(1) v by (cases x) (auto simp: get_structure_market_def Let_def)
  then show ?thesis
    by (simp add: ESIClient_head_def run_simps split: option.splits)
qed

lemma region_path_int:
  "get_region_market env (PyInt rid) ot tid kwd w =
     (if ot \<notin> set [''sell'', ''buy'', ''all''] then (Inl ValueError_order_type, w)
      else
        (case esi_head env (RegionOrders rid ot tid) of
           None \<Rightarrow> (Inl CollaboratorError, w\<lparr>trace := trace w @ [Head (RegionOrders rid ot tid)]\<rparr>)
         | Some h \<Rightarrow>
           (case cache_lookup w (make_cache_key ''get_region_market''
                                   [KInt rid, KStr ot, key_of_opt tid] kwd) of
              Some v \<Rightarrow> (Inr v, w\<lparr>trace := trace w @ [Head (RegionOrders rid ot tid),
                              CacheGet (make_cache_key ''get_region_market''
                                          [KInt rid, KStr ot, key_of_opt tid] kwd)]\<rparr>)
            | None \<Rightarrow> region_market_update env rid ot tid h
                        (make_cache_key ''get_region_market'' [KInt rid, KStr ot, key_of_opt tid] kwd)
                        (case kwd_get kwd ''page'' of None \<Rightarrow> - 1 | Some p \<Rightarrow> p)
                        (kwd_get kwd ''update_threshold'')
                        (w\<lparr>trace := trace w @ [Head (RegionOrders rid ot tid),
                              CacheGet (make_cache_key ''get_region_market''
                                          [KInt rid, KStr ot, key_of_opt tid] kwd)]\<rparr>))))"
  by (simp add: get_region_market_def ESIClient_head_def run_simps Let_def
      split: option.splits)

lemma region_path_str:
  "get_region_market env (PyStr s) ot tid kwd w =
     (case search_id env s ''region'' of
        None \<Rightarrow> (Inl CollaboratorError, w\<lparr>trace := trace w @ [Search ''search_id'']\<rparr>)
      | Some rid \<Rightarrow> get_region_market env (PyInt rid) ot tid kwd
                      (w\<lparr>trace := trace w @ [Search ''search_id'']\<rparr>))"
  by (simp add: get_region_market_def run_simps split: option.splits)

lemma region_path_other:
  "get_region_market env PyOther ot tid kwd w = (Inl TypeError, w)"
  by (simp add: get_region_market_def run_simps)

lemma bind_assoc: "bind_m (bind_m m f) g = bind_m m (\<lambda>x. bind_m (f x) g)"
  by (auto simp: bind_m_def fun_eq_iff split: prod.splits sum.splits)

lemma bind_Pair_Inr: "bind_m (Pair (Inr x)) f = f x"
  by (simp add: bind_m_def fun_eq_iff)

lemma bind_Pair_Inl: "bind_m (Pair (Inl e)) f = Pair (Inl e)"
  by (simp add: bind_m_def fun_eq_iff)

section \<open>The paths of the order queries\<close>

lemma structure_miss:
  assumes "x \<noteq> PyOther" and "(case x of PyInt i \<Rightarrow> i \<noteq> 0 | _ \<Rightarrow> False) \<or> truthy_str c"
    and "search_structure_id env x c = Some sid"
    and "esi_head env (StructureOrders sid) = Some h"
    and "cache_lookup w (make_cache_key ''get_structure_market'' [KInt sid] kwd) = None"
  shows "\<exists>us. trace (snd (get_structure_market env x c kwd w)) =
            trace w @ Search ''search_structure_id'' # Head (StructureOrders sid)
              # CacheGet (make_cache_key ''get_structure_market'' [KInt sid] kwd) # us
          \<and> list_all update_event us"
    and "fst (get_structure_market env x c kwd w) = Inl e \<Longrightarrow> update_error e"
proof -
  let ?k = "make_cache_key ''get_structure_market'' [KInt sid] kwd"
  let ?w = "w\<lparr>trace := trace w @ [Search ''search_structure_id'', Head (StructureOrders sid),
                                   CacheGet ?k]\<rparr>"
  have eq: "get_structure_market env x c kwd w = structure_market_update env sid h ?k kwd ?w"
    using assms by (simp add: structure_path)
  from only_events [OF only_structure_update, of env sid h ?k kwd ?w]
  obtain us where "trace (snd (structure_market_update env sid h ?k kwd ?w)) = trace ?w @ us"
    and "list_all update_event us" by blast
  then show "\<exists>us. trace (snd (get_structure_market env x c kwd w)) =
            trace w @ Search ''search_structure_id'' # Head (StructureOrders sid) # CacheGet ?k # us
          \<and> list_all update_event us"
    using eq by auto
  show "fst (get_structure_market env x c kwd w) = Inl e \<Longrightarrow> update_error e"
    using eq only_errors [OF only_structure_update] by metis
qed

lemma structure_hit:
  assumes "x \<noteq> PyOther" and "(case x of PyInt i \<Rightarrow> i \<noteq> 0 | _ \<Rightarrow> False) \<or> truthy_str c"
    and "search_structure_id env x c = Some sid"
    and "esi_head env (StructureOrders sid) = Some h"
    and "cache_lookup w (make_cache_key ''get_structure_market'' [KInt sid] kwd) = Some v"
  shows "get_structure_market env x c kwd w =
           (Inr v, w\<lparr>trace := trace w @ [Search ''search_structure_id'', Head (StructureOrders sid),
                       CacheGet (make_cache_key ''get_structure_market'' [KInt sid] kwd)]\<rparr>)"
  using assms by (simp add: structure_path)

lemma structure_invalid:
  assumes "x = PyOther \<or> \<not> ((case x of PyInt i \<Rightarrow> i \<noteq> 0 | _ \<Rightarrow> False) \<or> truthy_str c)"
  shows "snd (get_structure_market env x c kwd w) = w"
  using assms by (cases x) (auto simp: get_structure_market_def Let_def raise_def)

lemma update_event_kinds:
  "update_event ev \<Longrightarrow> \<not> is_cache_get ev \<and> (\<forall>e. ev \<noteq> Head e) \<and> \<not> is_search ev"
  by (cases ev) (simp_all add: update_event_def)

lemma filter_cache_get_update: "list_all update_event us \<Longrightarrow> filter is_cache_get us = []"
  by (induction us) (auto dest: update_event_kinds)

lemma structure_head_before_cache:
  "head_before_cache (run_events (get_structure_market env x c kwd) w)"
proof (cases "x \<noteq> PyOther \<and> ((case x of PyInt i \<Rightarrow> i \<noteq> 0 | _ \<Rightarrow> False) \<or> truthy_str c)")
  case False
  then have "snd (get_structure_market env x c kwd w) = w"
    using structure_invalid [of x c env kwd w] by blast
  then show ?thesis by (simp add: run_events_def)
next
  case True
  then have v: "x \<noteq> PyOther" "(case x of PyInt i \<Rightarrow> i \<noteq> 0 | _ \<Rightarrow> False) \<or> truthy_str c"
    by blast+
  show ?thesis
  proof (cases "search_structure_id env x c")
    case None
    then show ?thesis using v by (simp add: structure_path run_events_def)
  next
    case (Some sid)
    show ?thesis
    proof (cases "esi_head env (StructureOrders sid)")
      case None
      then show ?thesis using v Some by (simp add: structure_path run_events_def)
    next
      case (Some h)
      show ?thesis
      proof (cases "cache_lookup w (make_cache_key ''get_structure_market'' [KInt sid] kwd)")
        case None
        from structure_miss(1) [OF v \<open>search_structure_id env x c = Some sid\<close> Some None]
        obtain us where "trace (snd (get_structure_market env x c kwd w)) =
            trace w @ Search ''search_structure_id'' # Head (StructureOrders sid)
              # CacheGet (make_cache_key ''get_structure_market'' [KInt sid] kwd) # us" by blast
        then show ?thesis by (simp add: run_events_def)
      next
        case (Some v')
        then show ?thesis
          using v \<open>search_structure_id env x c = Some sid\<close> \<open>esi_head env (StructureOrders sid) = Some h\<close>
          by (simp add: structure_path run_events_def)
      qed
    qed
  qed
qed


lemma region_int_events:
  "\<exists>evs. trace (snd (get_region_market env (PyInt rid) ot tid kwd w)) = trace w @ evs
     \<and> (if ot \<notin> set [''sell'', ''buy'', ''all''] then evs = []
        else \<exists>rest. evs = Head (RegionOrders rid ot tid) # rest
               \<and> (rest = [] \<or>
                  (\<exists>us. rest = CacheGet (make_cache_key ''get_region_market''
                                          [KInt rid, KStr ot, key_of_opt tid] kwd) # us
                        \<and> list_all update_event us)))"
proof (cases "ot \<notin> set [''sell'', ''buy'', ''all'']")
  case True
  then show ?thesis by (simp add: region_path_int)
next
  case valid: False
  let ?k = "make_cache_key ''get_region_market'' [KInt rid, KStr ot, key_of_opt tid] kwd"
  show ?thesis
  proof (cases "esi_head env (RegionOrders rid ot tid)")
    case None
    then show ?thesis using valid by (simp add: region_path_int)
  next
    case (Some h)
    show ?thesis
    proof (cases "cache_lookup w ?k")
      case (Some v)
      then show ?thesis using valid \<open>esi_head env (RegionOrders rid ot tid) = Some h\<close>
        by (simp add: region_path_int)
    next
      case None
      let ?w = "w\<lparr>trace := trace w @ [Head (RegionOrders rid ot tid), CacheGet ?k]\<rparr>"
      let ?m = "region_market_update env rid ot tid h ?k
                  (case kwd_get kwd ''page'' of None \<Rightarrow> - 1 | Some p \<Rightarrow> p)
                  (kwd_get kwd ''update_threshold'')"
      have eq: "get_region_market env (PyInt rid) ot tid kwd w = ?m ?w"
        using valid Some None by (simp add: region_path_int)
      from only_events [OF only_region_update, of env rid ot tid h ?k _ _ ?w]
      obtain us where "trace (snd (?m ?w)) = trace ?w @ us" and "list_all update_event us"
        by blast
      then show ?thesis using eq valid by auto
    qed
  qed
qed

lemma region_int_errors:
  assumes "ot \<in> set [''sell'', ''buy'', ''all'']"
    and "fst (get_region_market env (PyInt rid) ot tid kwd w) = Inl e"
  shows "update_error e"
proof (cases "esi_head env (RegionOrders rid ot tid)")
  case None
  then show ?thesis using assms by (auto simp: region_path_int update_error_def)
next
  case (Some h)
  let ?k = "make_cache_key ''get_region_market'' [KInt rid, KStr ot, key_of_opt tid] kwd"
  show ?thesis
  proof (cases "cache_lookup w ?k")
    case (Some v)
    then show ?thesis using assms \<open>esi_head env (RegionOrders rid ot tid) = Some h\<close>
      by (auto simp: region_path_int)
  next
    case None
    then show ?thesis
      using assms Some only_errors [OF only_region_update]
      by (auto simp: region_path_int)
  qed
qed

lemma region_head_before_cache:
  "head_before_cache (run_events (get_region_market env y ot tid kwd) w)"
proof (cases y)
  case PyOther
  then show ?thesis by (simp add: region_path_other run_events_def)
next
  case (PyInt rid)
  from region_int_events [of env rid ot tid kwd w]
  obtain evs where t: "trace (snd (get_region_market env (PyInt rid) ot tid kwd w)) = trace w @ evs"
    and c: "if ot \<notin> set [''sell'', ''buy'', ''all''] then evs = []
        else \<exists>rest. evs = Head (RegionOrders rid ot tid) # rest
               \<and> (rest = [] \<or>
                  (\<exists>us. rest = CacheGet (make_cache_key ''get_region_market''
                                          [KInt rid, KStr ot, key_of_opt tid] kwd) # us
                        \<and> list_all update_event us))" by blast
  from c have "head_before_cache evs" by (auto split: if_splits)
  then show ?thesis using t PyInt by (simp add: run_events_def)
next
  case (PyStr s)
  show ?thesis
  proof (cases "search_id env s ''region''")
    case None
    then show ?thesis using PyStr by (simp add: region_path_str run_events_def)
  next
    case (Some rid)
    let ?w = "w\<lparr>trace := trace w @ [Search ''search_id'']\<rparr>"
    from region_int_events [of env rid ot tid kwd ?w]
    obtain evs where t: "trace (snd (get_region_market env (PyInt rid) ot tid kwd ?w)) = trace ?w @ evs"
      and c: "if ot \<notin> set [''sell'', ''buy'', ''all''] then evs = []
        else \<exists>rest. evs = Head (RegionOrders rid ot tid) # rest
               \<and> (rest = [] \<or>
                  (\<exists>us. rest = CacheGet (make_cache_key ''get_region_market''
                                          [KInt rid, KStr ot, key_of_opt tid] kwd) # us
                        \<and> list_all update_event us))" by blast
    from c have "head_before_cache evs" by (auto split: if_splits)
    then show ?thesis using t PyStr Some by (simp add: region_path_str run_events_def)
  qed
qed

section \<open>The fresh path and the fetch path\<close>











section \<open>What the response cache receives\<close>





section \<open>Validation errors\<close>

text \<open>
  C5, as stated, fails where the identifier is a name: \<^verbatim>\<open>get_region_market\<close> called
  with the region name "The Forge" and the order type "bogus" has already called the
  name-resolution collaborator \<^verbatim>\<open>search_id\<close> (line 193) when it raises the
  \<^verbatim>\<open>ValueError\<close> of line 202.
\<close>

theorem validation_error_counterexample:
  "fst (get_region_market example_env (PyStr ''The Forge'') ''bogus'' None [] (init_world 1000 [] []))
     = Inl ValueError_order_type
   \<and> run_events (get_region_market example_env (PyStr ''The Forge'') ''bogus'' None [])
       (init_world 1000 [] []) = [Search ''search_id'']"
  by (simp add: region_path_str region_path_int example_env_def init_world_def run_events_def)

text \<open>
  C5, amended.  A wrong identifier type raises \<^verbatim>\<open>TypeError\<close> in every query with the
  world untouched, and so does a structure name without \<^verbatim>\<open>cname\<close> with its
  \<^verbatim>\<open>ValueError\<close>.  An unrecognised order type raises \<^verbatim>\<open>ValueError\<close> with the world
  untouched when the identifier is an integer; when it is a name that resolves, the error
  is raised after the one call of \<^verbatim>\<open>search_id\<close> and before any request for market
  data, any freshness decision, and any access to the store or the cache.
\<close>

theorem validation_errors_before_market_access:
  "get_structure_market env PyOther cname kwd w = (Inl TypeError, w)
   \<and> get_region_market env PyOther ot tid kwd w = (Inl TypeError, w)
   \<and> get_station_market env PyOther ot tid kwd w = (Inl TypeError, w)
   \<and> get_type_history env PyOther t reduces w = (Inl TypeError, w)
   \<and> get_market_history env PyOther type_ids reduces w = (Inl TypeError, w)
   \<and> get_region_types env PyOther src w = (Inl TypeError, w)
   \<and> (\<not> truthy_str cname \<longrightarrow>
        get_structure_market env (PyStr s) cname kwd w = (Inl ValueError_cname, w))
   \<and> (ot \<notin> set [''sell'', ''buy'', ''all''] \<longrightarrow>
        get_region_market env (PyInt i) ot tid kwd w = (Inl ValueError_order_type, w)
        \<and> get_station_market env (PyInt i) ot tid kwd w = (Inl ValueError_order_type, w)
        \<and> (search_id env s ''region'' = Some i \<longrightarrow>
             get_region_market env (PyStr s) ot tid kwd w
               = (Inl ValueError_order_type, w\<lparr>trace := trace w @ [Search ''search_id'']\<rparr>))
        \<and> (search_id env s ''station'' = Some i \<longrightarrow>
             get_station_market env (PyStr s) ot tid kwd w
               = (Inl ValueError_order_type, w\<lparr>trace := trace w @ [Search ''search_id'']\<rparr>)))"
proof (intro conjI impI)
  show "get_structure_market env PyOther cname kwd w = (Inl TypeError, w)"
    by (simp add: get_structure_market_def raise_apply)
  show "get_region_market env PyOther ot tid kwd w = (Inl TypeError, w)"
    by (rule region_path_other)
  show "get_station_market env PyOther ot tid kwd w = (Inl TypeError, w)"
    by (simp add: get_station_market_def raise_apply)
  show "get_type_history env PyOther t reduces w = (Inl TypeError, w)"
    by (simp add: get_type_history_def raise_apply)
  show "get_market_history env PyOther type_ids reduces w = (Inl TypeError, w)"
    by (simp add: get_market_history_def raise_apply)
  show "get_region_types env PyOther src w = (Inl TypeError, w)"
    by (simp add: get_region_types_def raise_apply)
next
  assume "\<not> truthy_str cname"
  then show "get_structure_market env (PyStr s) cname kwd w = (Inl ValueError_cname, w)"
    by (simp add: get_structure_market_def raise_apply)
next
  assume bad: "ot \<notin> set [''sell'', ''buy'', ''all'']"
  then show "get_region_market env (PyInt i) ot tid kwd w = (Inl ValueError_order_type, w)"
    by (simp add: region_path_int)
  from bad show "get_station_market env (PyInt i) ot tid kwd w = (Inl ValueError_order_type, w)"
    by (simp add: get_station_market_def raise_apply)
  {
    assume "search_id env s ''region'' = Some i"
    with bad show "get_region_market env (PyStr s) ot tid kwd w
               = (Inl ValueError_order_type, w\<lparr>trace := trace w @ [Search ''search_id'']\<rparr>)"
      by (simp add: region_path_str region_path_int)
  }
  assume "search_id env s ''station'' = Some i"
  with bad show "get_station_market env (PyStr s) ot tid kwd w
               = (Inl ValueError_order_type, w\<lparr>trace := trace w @ [Search ''search_id'']\<rparr>)"
    by (simp add: get_station_market_def run_simps)
qed

theorem validation_errors_before_market_access_witness:
  "\<not> truthy_str None
   \<and> ''bogus'' \<notin> set [''sell'', ''buy'', ''all'']
   \<and> search_id example_env ''The Forge'' ''region'' = Some 10000002
   \<and> search_id example_env ''The Forge'' ''station'' = Some 10000002
   \<and> get_structure_market example_env (PyStr ''The Forge'') None [] (init_world 1000 [] [])
       = (Inl ValueError_cname, init_world 1000 [] [])
   \<and> get_region_market example_env (PyInt 10000002) ''bogus'' None [] (init_world 1000 [] [])
       = (Inl ValueError_order_type, init_world 1000 [] [])
   \<and> get_station_market example_env (PyStr ''The Forge'') ''bogus'' None [] (init_world 1000 [] [])
       = (Inl ValueError_order_type, (init_world 1000 [] [])\<lparr>trace := [Search ''search_id'']\<rparr>)"
  using validation_errors_before_market_access [of example_env None "[]" "init_world 1000 [] []"
      "''bogus''" None 0 None None "''esi''" "''The Forge''" 10000002]
  by (simp add: example_env_def truthy_str_def init_world_def)

section \<open>The cache key of a structure query\<close>

text \<open>
  C8.  Two calls of \<^verbatim>\<open>get_structure_market\<close> for the same structure id and the same
  keyword arguments, with different or absent \<^verbatim>\<open>cname\<close>, compute the same cache key:
  the only key either call looks up is the key of the structure id and the keyword
  arguments.  When that key is present in the response cache, the call returns the cached
  value, and the world differs only by the events of the name resolution, the HEAD request
  and the cache read: the freshness oracle and the store are not consulted.
\<close>

theorem structure_cache_key_ignores_cname:
  assumes "x \<noteq> PyOther"
    and "(case x of PyInt i \<Rightarrow> i \<noteq> 0 | _ \<Rightarrow> False) \<or> truthy_str c1"
    and "(case x of PyInt i \<Rightarrow> i \<noteq> 0 | _ \<Rightarrow> False) \<or> truthy_str c2"
    and "search_structure_id env x c1 = Some sid"
    and "search_structure_id env x c2 = Some sid"
    and "esi_head env (StructureOrders sid) = Some h"
  shows "filter is_cache_get (run_events (get_structure_market env x c1 kwd) w1)
           = [CacheGet (make_cache_key ''get_structure_market'' [KInt sid] kwd)]
       \<and> filter is_cache_get (run_events (get_structure_market env x c2 kwd) w2)
           = [CacheGet (make_cache_key ''get_structure_market'' [KInt sid] kwd)]
       \<and> (cache_lookup w2 (make_cache_key ''get_structure_market'' [KInt sid] kwd) = Some v \<longrightarrow>
            get_structure_market env x c2 kwd w2
              = (Inr v, w2\<lparr>trace := trace w2 @
                   [Search ''search_structure_id'', Head (StructureOrders sid),
                    CacheGet (make_cache_key ''get_structure_market'' [KInt sid] kwd)]\<rparr>)
            \<and> filter is_store (run_events (get_structure_market env x c2 kwd) w2) = [])"
proof -
  let ?k = "make_cache_key ''get_structure_market'' [KInt sid] kwd"
  have key: "filter is_cache_get (run_events (get_structure_market env x c kwd) w) = [CacheGet ?k]"
    if v: "(case x of PyInt i \<Rightarrow> i \<noteq> 0 | _ \<Rightarrow> False) \<or> truthy_str c"
      and s: "search_structure_id env x c = Some sid" for c w
  proof (cases "cache_lookup w ?k")
    case None
    from structure_miss(1) [OF assms(1) v s assms(6) None]
    obtain us where "trace (snd (get_structure_market env x c kwd w)) =
            trace w @ Search ''search_structure_id'' # Head (StructureOrders sid) # CacheGet ?k # us"
      and "list_all update_event us" by blast
    then show ?thesis by (simp add: run_events_def filter_cache_get_update)
  next
    case (Some v')
    then show ?thesis using structure_hit [OF assms(1) v s assms(6)] by (simp add: run_events_def)
  qed
  have hit: "get_structure_market env x c2 kwd w2
              = (Inr v, w2\<lparr>trace := trace w2 @
                   [Search ''search_structure_id'', Head (StructureOrders sid), CacheGet ?k]\<rparr>)
            \<and> filter is_store (run_events (get_structure_market env x c2 kwd) w2) = []"
    if "cache_lookup w2 ?k = Some v"
    using structure_hit [OF assms(1) assms(3) assms(5) assms(6) that] by (simp add: run_events_def)
  show ?thesis using key [OF assms(2) assms(4)] key [OF assms(3) assms(5)] hit by blast
qed

theorem structure_cache_key_ignores_cname_witness:
  "filter is_cache_get (run_events (get_structure_market example_env (PyInt 5) None []) cached_world)
     = filter is_cache_get
         (run_events (get_structure_market example_env (PyInt 5) (Some ''pilot'') [])
            (init_world 1000 [] []))
   \<and> get_structure_market example_env (PyInt 5) (Some ''pilot'') [] cached_world
       = (Inr (Orders [example_order]),
          cached_world\<lparr>trace := [Search ''search_structure_id'', Head (StructureOrders 5),
                     CacheGet (make_cache_key ''get_structure_market'' [KInt 5] [])]\<rparr>)"
  using structure_cache_key_ignores_cname [of "PyInt 5" None "Some ''pilot''" example_env 5
      "\<lparr>Expires = Some 2000, X_Pages = Some 1\<rparr>" "[]" cached_world cached_world
      "Orders [example_order]"]
    structure_cache_key_ignores_cname [of "PyInt 5" None "Some ''pilot''" example_env 5
      "\<lparr>Expires = Some 2000, X_Pages = Some 1\<rparr>" "[]" cached_world "init_world 1000 [] []"
      "Orders [example_order]"]
  by (simp add: example_env_def cached_world_def cache_lookup_def make_cache_key_def
      truthy_str_def)

section \<open>The HEAD request and the response cache\<close>

text \<open>
  C9.  Both order queries send their HEAD request before they consult the response cache:
  in the events of any call of \<^verbatim>\<open>get_structure_market\<close> or \<^verbatim>\<open>get_region_market\<close>
  a \<open>Head\<close> comes before any \<open>CacheGet\<close>.  A call that passes validation, and whose
  name resolution answers, issues the HEAD (after the resolution, where there is one); and
  a call that is served from the cache has made exactly one remote request, that HEAD.
\<close>

theorem head_precedes_cache_read:
  "head_before_cache (run_events (get_structure_market env x cname kwd) w)
   \<and> head_before_cache (run_events (get_region_market env y order_type tid kwd) w)
   \<and> (x \<noteq> PyOther \<and> ((case x of PyInt i \<Rightarrow> i \<noteq> 0 | _ \<Rightarrow> False) \<or> truthy_str cname)
        \<and> search_structure_id env x cname = Some sid \<longrightarrow>
        (\<exists>rest. run_events (get_structure_market env x cname kwd) w
                  = Search ''search_structure_id'' # Head (StructureOrders sid) # rest)
        \<and> (esi_head env (StructureOrders sid) \<noteq> None
             \<and> cache_lookup w (make_cache_key ''get_structure_market'' [KInt sid] kwd) \<noteq> None \<longrightarrow>
             filter is_remote (run_events (get_structure_market env x cname kwd) w)
               = [Head (StructureOrders sid)]))
   \<and> (order_type \<in> set [''sell'', ''buy'', ''all''] \<longrightarrow>
        (\<exists>rest. run_events (get_region_market env (PyInt rid) order_type tid kwd) w
                  = Head (RegionOrders rid order_type tid) # rest)
        \<and> (search_id env s ''region'' = Some rid \<longrightarrow>
             (\<exists>rest. run_events (get_region_market env (PyStr s) order_type tid kwd) w
                  = Search ''search_id'' # Head (RegionOrders rid order_type tid) # rest))
        \<and> (esi_head env (RegionOrders rid order_type tid) \<noteq> None
             \<and> cache_lookup w (make_cache_key ''get_region_market''
                                  [KInt rid, KStr order_type, key_of_opt tid] kwd) \<noteq> None \<longrightarrow>
             filter is_remote (run_events (get_region_market env (PyInt rid) order_type tid kwd) w)
               = [Head (RegionOrders rid order_type tid)]))"
proof (intro conjI impI)
  show "head_before_cache (run_events (get_structure_market env x cname kwd) w)"
    by (rule structure_head_before_cache)
  show "head_before_cache (run_events (get_region_market env y order_type tid kwd) w)"
    by (rule region_head_before_cache)
next
  assume a: "x \<noteq> PyOther \<and> ((case x of PyInt i \<Rightarrow> i \<noteq> 0 | _ \<Rightarrow> False) \<or> truthy_str cname)
        \<and> search_structure_id env x cname = Some sid"
  then have v: "x \<noteq> PyOther" "(case x of PyInt i \<Rightarrow> i \<noteq> 0 | _ \<Rightarrow> False) \<or> truthy_str cname"
    and s: "search_structure_id env x cname = Some sid" by blast+
  note p = structure_path [OF v, of env kwd w]
  show "\<exists>rest. run_events (get_structure_market env x cname kwd) w
                  = Search ''search_structure_id'' # Head (StructureOrders sid) # rest"
  proof (cases "esi_head env (StructureOrders sid)")
    case None
    then show ?thesis using p s by (simp add: run_events_def)
  next
    case (Some h)
    show ?thesis
    proof (cases "cache_lookup w (make_cache_key ''get_structure_market'' [KInt sid] kwd)")
      case None
      from structure_miss(1) [OF v s Some None]
      show ?thesis by (auto simp: run_events_def)
    next
      case (Some v')
      then show ?thesis using p s \<open>esi_head env (StructureOrders sid) = Some h\<close>
        by (simp add: run_events_def)
    qed
  qed
  assume "esi_head env (StructureOrders sid) \<noteq> None
             \<and> cache_lookup w (make_cache_key ''get_structure_market'' [KInt sid] kwd) \<noteq> None"
  then obtain h v' where "esi_head env (StructureOrders sid) = Some h"
    and "cache_lookup w (make_cache_key ''get_structure_market'' [KInt sid] kwd) = Some v'"
    by auto
  then show "filter is_remote (run_events (get_structure_market env x cname kwd) w)
               = [Head (StructureOrders sid)]"
    using structure_hit [OF v s] by (simp add: run_events_def)
next
  assume valid: "order_type \<in> set [''sell'', ''buy'', ''all'']"
  from region_int_events [of env rid order_type tid kwd w] valid
  show "\<exists>rest. run_events (get_region_market env (PyInt rid) order_type tid kwd) w
                  = Head (RegionOrders rid order_type tid) # rest"
    by (auto simp: run_events_def)
  {
    assume s: "search_id env s ''region'' = Some rid"
    let ?w = "w\<lparr>trace := trace w @ [Search ''search_id'']\<rparr>"
    from region_int_events [of env rid order_type tid kwd ?w] valid
    show "\<exists>rest. run_events (get_region_market env (PyStr s) order_type tid kwd) w
                  = Search ''search_id'' # Head (RegionOrders rid order_type tid) # rest"
      using s by (auto simp: run_events_def region_path_str)
  }
  assume "esi_head env (RegionOrders rid order_type tid) \<noteq> None
             \<and> cache_lookup w (make_cache_key ''get_region_market''
                                  [KInt rid, KStr order_type, key_of_opt tid] kwd) \<noteq> None"
  then obtain h v' where "esi_head env (RegionOrders rid order_type tid) = Some h"
    and "cache_lookup w (make_cache_key ''get_region_market''
                                  [KInt rid, KStr order_type, key_of_opt tid] kwd) = Some v'"
    by auto
  then show "filter is_remote (run_events (get_region_market env (PyInt rid) order_type tid kwd) w)
               = [Head (RegionOrders rid order_type tid)]"
    using valid by (simp add: region_path_int run_events_def)
qed


theorem head_precedes_cache_read_witness:
  "head_before_cache (run_events (get_structure_market example_env (PyInt 5) None []) cached_world)
   \<and> run_events (get_structure_market example_env (PyInt 5) None []) cached_world
       = [Search ''search_structure_id'', Head (StructureOrders 5),
          CacheGet (make_cache_key ''get_structure_market'' [KInt 5] [])]
   \<and> filter is_remote (run_events (get_structure_market example_env (PyInt 5) None []) cached_world)
       = [Head (StructureOrders 5)]
   \<and> filter is_remote
        (run_events (get_region_market example_env (PyInt 10000002) ''all'' None []) cached_world)
       = [Head (RegionOrders 10000002 ''all'' None)]
   \<and> hd (run_events (get_region_market example_env (PyStr ''The Forge'') ''all'' None [])
            cached_world) = Search ''search_id''"
  using head_precedes_cache_read [of example_env "PyInt 5" None "[]" cached_world
      "PyInt 10000002" "''all''" None 5 10000002 "''The Forge''"]
    structure_hit [of "PyInt 5" None example_env 5 _ cached_world "[]" "Orders [example_order]"]
  by (auto simp: example_env_def cached_world_def cache_lookup_def make_cache_key_def
      key_of_opt_def run_events_def truthy_str_def)

section \<open>The structure id 0\<close>

text \<open>
  C10.  \<^verbatim>\<open>get_structure_market\<close> called with the integer structure id 0 and no
  \<^verbatim>\<open>cname\<close> raises the \<^verbatim>\<open>ValueError\<close> that asks for \<^verbatim>\<open>cname\<close>, before anything else
  happens: line 68 tests the id for truth, and 0 is false.  For every other integer id no
  \<^verbatim>\<open>cname\<close> is required: the call does not raise that error and goes on to
  \<^verbatim>\<open>search_structure_id\<close>.
\<close>

theorem structure_id_zero_requires_cname:
  "get_structure_market env (PyInt 0) None kwd w = (Inl ValueError_cname, w)
   \<and> (i \<noteq> 0 \<longrightarrow>
        fst (get_structure_market env (PyInt i) None kwd w) \<noteq> Inl ValueError_cname
        \<and> (\<exists>rest. run_events (get_structure_market env (PyInt i) None kwd) w
                     = Search ''search_structure_id'' # rest))"
proof (intro conjI impI)
  show "get_structure_market env (PyInt 0) None kwd w = (Inl ValueError_cname, w)"
    by (simp add: get_structure_market_def truthy_str_def raise_def)
next
  assume nz: "i \<noteq> 0"
  have v: "PyInt i \<noteq> PyOther" "(case PyInt i of PyInt i \<Rightarrow> i \<noteq> 0 | _ \<Rightarrow> False) \<or> truthy_str None"
    using nz by simp_all
  note p = structure_path [OF v, of env kwd w]
  show "fst (get_structure_market env (PyInt i) None kwd w) \<noteq> Inl ValueError_cname"
  proof
    assume a: "fst (get_structure_market env (PyInt i) None kwd w) = Inl ValueError_cname"
    show False
    proof (cases "search_structure_id env (PyInt i) None")
      case None
      then show False using a p by simp
    next
      case (Some sid)
      show False
      proof (cases "esi_head env (StructureOrders sid)")
        case None
        then show False using a p Some by simp
      next
        case (Some h)
        show False
        proof (cases "cache_lookup w (make_cache_key ''get_structure_market'' [KInt sid] kwd)")
          case None
          from structure_miss(2) [OF v \<open>search_structure_id env (PyInt i) None = Some sid\<close> Some None a]
          show False by (simp add: update_error_def)
        next
          case (Some v')
          then show False
            using a p \<open>search_structure_id env (PyInt i) None = Some sid\<close>
              \<open>esi_head env (StructureOrders sid) = Some h\<close> by simp
        qed
      qed
    qed
  qed
  show "\<exists>rest. run_events (get_structure_market env (PyInt i) None kwd) w
                     = Search ''search_structure_id'' # rest"
  proof (cases "search_structure_id env (PyInt i) None")
    case None
    then show ?thesis using p by (simp add: run_events_def)
  next
    case (Some sid)
    show ?thesis
    proof (cases "esi_head env (StructureOrders sid)")
      case None
      then show ?thesis using p Some by (simp add: run_events_def)
    next
      case (Some h)
      show ?thesis
      proof (cases "cache_lookup w (make_cache_key ''get_structure_market'' [KInt sid] kwd)")
        case None
        from structure_miss(1) [OF v \<open>search_structure_id env (PyInt i) None = Some sid\<close> Some None]
        show ?thesis by (auto simp: run_events_def)
      next
        case (Some v')
        then show ?thesis
          using p \<open>search_structure_id env (PyInt i) None = Some sid\<close>
            \<open>esi_head env (StructureOrders sid) = Some h\<close> by (simp add: run_events_def)
      qed
    qed
  qed
qed

theorem structure_id_zero_requires_cname_witness:
  "(5::int) \<noteq> 0
   \<and> get_structure_market example_env (PyInt 0) None [] (init_world 1000 [] [])
       = (Inl ValueError_cname, init_world 1000 [] [])
   \<and> fst (get_structure_market example_env (PyInt 5) None [] (init_world 1000 [] []))
       \<noteq> Inl ValueError_cname"
  using structure_id_zero_requires_cname [of example_env "[]" "init_world 1000 [] []" 5]
  by simp

section \<open>The station query\<close>

lemma station_path:
  assumes "ot \<in> set [''sell'', ''buy'', ''all'']"
    and "search_station_region_id env station_id = Some rid"
  shows "get_station_market env (PyInt station_id) ot tid kwd w =
     (let w1 = w\<lparr>trace := trace w @ [Search ''search_station_region_id'', Oracle ''orders'']\<rparr>;
          ut = (case kwd_get kwd ''update_threshold'' of None \<Rightarrow> 1200 | Some t \<Rightarrow> t);
          d = update_or_not (clock w - ut) (orders w) retrieve_time 1000 True
                (\<lambda>r. region_id r = rid \<and> location_id r = station_id)
      in if fst d
         then (Inr (Orders (select_from_orders ot tid (Some rid) (Some station_id) (snd d)
                              (orders w))),
               w1\<lparr>trace := trace w1 @ [StoreRead ''orders'']\<rparr>)
         else bind_m (get_region_market env (PyInt rid) ot tid [(''update_threshold'', ut)])
                (\<lambda>_ w2. (Inr (Orders (select_from_orders ot tid (Some rid) (Some station_id)
                                          (snd d) (orders w2))),
                           w2\<lparr>trace := trace w2 @ [StoreRead ''orders'']\<rparr>)) w1)"
  using assms
  by (simp add: get_station_market_def run_simps Let_def split_beta bind_assoc)

text \<open>
  C2.  The claim asks that \<^verbatim>\<open>get_station_market\<close> run the fetch path when the oracle
  reports the stored data stale.  The code does the opposite.  Evaluated on an empty store
  (no matching row: the oracle answers that an update is needed), the call makes no remote
  request at all and returns the rows of the store, of which there are none.  Line 339
  binds the oracle's first answer, "update needed", to the name \<^verbatim>\<open>no_update_flag\<close>, and
  line 347 fetches when it is false, that is when the data is fresh; the two sibling
  queries (lines 100 and 237) read the same answer the right way round.
\<close>

theorem station_market_stale_without_fetch:
  "fst (update_or_not (1000 - 1200) ([]::order list) retrieve_time 1000 True
          (\<lambda>r. region_id r = 10000002 \<and> location_id r = 60003760)) = True
   \<and> get_station_market example_env (PyInt 60003760) ''all'' None [] (init_world 1000 [] [])
       = (Inr (Orders []),
          (init_world 1000 [] [])\<lparr>trace := [Search ''search_station_region_id'', Oracle ''orders'',
                                            StoreRead ''orders'']\<rparr>)
   \<and> filter is_remote
        (run_events (get_station_market example_env (PyInt 60003760) ''all'' None [])
           (init_world 1000 [] [])) = []"
proof -
  have d: "update_or_not (- 200) ([]::order list) retrieve_time 1000 True
             (\<lambda>r. region_id r = 10000002 \<and> location_id r = 60003760) = (True, None)"
    by (simp add: update_or_not_def max_timestamp_def)
  have s: "search_station_region_id example_env 60003760 = Some 10000002"
    by (simp add: example_env_def)
  have r: "get_station_market example_env (PyInt 60003760) ''all'' None [] (init_world 1000 [] [])
       = (Inr (Orders []),
          (init_world 1000 [] [])\<lparr>trace := [Search ''search_station_region_id'', Oracle ''orders'',
                                            StoreRead ''orders'']\<rparr>)"
    using station_path [of "''all''" example_env 60003760 10000002 None "[]" "init_world 1000 [] []"] s d
    by (simp add: init_world_def kwd_get_def select_from_orders_def Let_def)
  have e: "run_events (get_station_market example_env (PyInt 60003760) ''all'' None [])
             (init_world 1000 [] [])
           = [Search ''search_station_region_id'', Oracle ''orders'', StoreRead ''orders'']"
    unfolding run_events_def r by (simp add: init_world_def)
  show ?thesis using d unfolding r e by simp
qed

section \<open>History with no data\<close>

text \<open>
  C4.  The claim asks that \<^verbatim>\<open>get_market_history\<close> return an empty result when no
  requested type has data.  Evaluated for the single unpublished type 35, every task
  returns \<^verbatim>\<open>None\<close> (line 428), and \<^verbatim>\<open>pd.concat\<close> at line 555 raises
  \<^verbatim>\<open>ValueError\<close> on a list that holds no frame: the call raises instead of returning.
\<close>

theorem market_history_no_data_raises:
  "get_market_history example_env (PyInt 10000002) (Some [35]) None (init_world 1000 [] [])
     = (Inl ValueError_concat,
        (init_world 1000 [] [])\<lparr>trace :=
           [CacheGet (make_cache_key ''get_market_history''
                        [KInt 10000002, KInts [35], KNone] []),
            Head (RegionHistory 10000002 12005), Oracle ''market_history'', CheckType 35]\<rparr>)
   \<and> check_type_id example_env 35 = Some False"
proof -
  have d: "update_or_not (- 171800) ([]::history list) h_date 1 False
             (\<lambda>h. h_region_id h = 10000002 \<and> h_type_id h = 35) = (True, None)"
    by (simp add: update_or_not_def max_timestamp_def)
  have c: "check_type_id example_env 35 = Some False" by (simp add: example_env_def)
  have a: "get_type_history_async example_env 10000002 35 None w
             = (Inr None, w\<lparr>trace := trace w @ [Oracle ''market_history'', CheckType 35]\<rparr>)"
    if "clock w = 1000" and "market_history w = []" for w
    using that d c by (simp add: get_type_history_async_def run_simps)
  have a': "bind_m (get_type_history_async example_env 10000002 35 None) f w
             = f None (w\<lparr>trace := trace w @ [Oracle ''market_history'', CheckType 35]\<rparr>)"
    if "clock w = 1000" and "market_history w = []" for w and f :: "history list option \<Rightarrow> 'b action"
    using a [OF that] by (simp add: bind_m_def)
  have h: "esi_head example_env (RegionHistory 10000002 12005)
             = Some \<lparr>Expires = Some 2000, X_Pages = Some 1\<rparr>"
    by (simp add: example_env_def)
  have "get_market_history example_env (PyInt 10000002) (Some [35]) None (init_world 1000 [] [])
     = (Inl ValueError_concat,
        (init_world 1000 [] [])\<lparr>trace :=
           [CacheGet (make_cache_key ''get_market_history''
                        [KInt 10000002, KInts [35], KNone] []),
            Head (RegionHistory 10000002 12005), Oracle ''market_history'', CheckType 35]\<rparr>)"
    by (simp add: get_market_history_def run_simps bind_assoc bind_Pair_Inr bind_Pair_Inl
        ESIClient_head_def h a' pd_concat_def
        init_world_def cache_lookup_def key_of_reducer_def header_expiry_def)
  with c show ?thesis by simp
qed

section \<open>The dedup keys of the store\<close>

lemma upsert_row_ids:
  "map order_id (orders_upsert_row tbl r) =
     (if order_id r \<in> set (map order_id tbl) then map order_id tbl
      else map order_id tbl @ [order_id r])"
  by (simp add: orders_upsert_row_def o_def)

lemma upsert_row_distinct:
  "distinct (map order_id tbl) \<Longrightarrow> distinct (map order_id (orders_upsert_row tbl r))"
  by (simp add: upsert_row_ids)

lemma insert_update_distinct:
  "distinct (map order_id tbl) \<Longrightarrow> distinct (map order_id (orders_insert_update tbl rows))"
  unfolding orders_insert_update_def
  by (induction rows arbitrary: tbl) (simp_all add: upsert_row_distinct)

lemma insert_update_snoc:
  "orders_insert_update tbl (rows @ [r]) = orders_upsert_row (orders_insert_update tbl rows) r"
  by (simp add: orders_insert_update_def)

lemma filter_key_absent: "k0 \<notin> set (map k tbl) \<Longrightarrow> filter (\<lambda>y. k y = k0) tbl = []"
  by (induction tbl) auto

lemma unique_row:
  "distinct (map k tbl) \<Longrightarrow> x \<in> set tbl \<Longrightarrow> filter (\<lambda>y. k y = k x) tbl = [x]"
proof (induction tbl)
  case Nil
  then show ?case by simp
next
  case (Cons a tbl)
  show ?case
  proof (cases "a = x")
    case True
    have "filter (\<lambda>y. k y = k x) tbl = []"
      using Cons.prems(1) True by (simp add: filter_key_absent)
    then show ?thesis using True by simp
  next
    case False
    then have "x \<in> set tbl" using Cons.prems(2) by simp
    moreover have "k a \<noteq> k x" using Cons.prems(1) \<open>x \<in> set tbl\<close> by auto
    ultimately show ?thesis using Cons by simp
  qed
qed

lemma upsert_row_last_write:
  assumes "distinct (map order_id tbl)"
  shows "\<exists>y. filter (\<lambda>x. order_id x = order_id r) (orders_upsert_row tbl r) = [y]
           \<and> price y = price r \<and> volume_remain y = volume_remain r
           \<and> duration y = duration r \<and> retrieve_time y = retrieve_time r"
proof (cases "order_id r \<in> set (map order_id tbl)")
  case False
  then have "filter (\<lambda>x. order_id x = order_id r) tbl = []"
    by (rule filter_key_absent)
  then show ?thesis using False by (simp add: orders_upsert_row_def)
next
  case True
  then obtain x where x: "x \<in> set tbl" "order_id x = order_id r" by auto
  let ?u = "\<lambda>x. if order_id x = order_id r
                then x\<lparr>price := price r, volume_remain := volume_remain r,
                       duration := duration r, retrieve_time := retrieve_time r\<rparr>
                else x"
  have "filter (\<lambda>x. order_id x = order_id r) (map ?u tbl)
          = map ?u (filter (\<lambda>x. order_id x = order_id r) tbl)"
    by (induction tbl) auto
  also have "filter (\<lambda>x. order_id x = order_id r) tbl = [x]"
    using unique_row [OF assms x(1)] x(2) by simp
  finally show ?thesis using True x(2) by (simp add: orders_upsert_row_def)
qed

lemma ignore_row_keys:
  "map history_key (history_ignore_row tbl r) =
     (if history_key r \<in> set (map history_key tbl) then map history_key tbl
      else map history_key tbl @ [history_key r])"
  by (simp add: history_ignore_row_def)

lemma insert_ignore_distinct:
  "distinct (map history_key tbl) \<Longrightarrow> distinct (map history_key (history_insert_ignore tbl rows))"
  unfolding history_insert_ignore_def
  by (induction rows arbitrary: tbl) (simp_all add: ignore_row_keys)

lemma insert_ignore_keeps:
  "x \<in> set tbl \<Longrightarrow> x \<in> set (history_insert_ignore tbl rows)"
  unfolding history_insert_ignore_def
  by (induction rows arbitrary: tbl) (simp_all add: history_ignore_row_def)

text \<open>
  C6.  Every write to the store keeps the keys unique.  After a batch has been written to
  the orders table there is at most one row for each \<^verbatim>\<open>order_id\<close>, and the one row
  with the id of the last record written carries that record's price, remaining volume,
  duration and retrieve time.  After a batch has been written to the history table there is
  at most one row for each \<^verbatim>\<open>(region_id, type_id, date)\<close>, and for every row that was
  there before, the one row with its key is that row itself, unchanged.
\<close>

theorem store_writes_keep_dedup_keys:
  assumes "distinct (map order_id (orders w))"
    and "distinct (map history_key (market_history w))"
  shows "distinct (map order_id (orders (snd (to_sql_orders df w))))
       \<and> (\<exists>y. filter (\<lambda>x. order_id x = order_id r)
                 (orders (snd (to_sql_orders (df @ [r]) w))) = [y]
              \<and> price y = price r \<and> volume_remain y = volume_remain r
              \<and> duration y = duration r \<and> retrieve_time y = retrieve_time r)
       \<and> distinct (map history_key (market_history (snd (to_sql_history hdf w))))
       \<and> (\<forall>x \<in> set (market_history w).
             filter (\<lambda>y. history_key y = history_key x)
               (market_history (snd (to_sql_history hdf w))) = [x])"
proof (intro conjI ballI)
  show "distinct (map order_id (orders (snd (to_sql_orders df w))))"
    using assms(1) by (simp add: to_sql_orders_def bind_emit insert_update_distinct)
  show "\<exists>y. filter (\<lambda>x. order_id x = order_id r)
                 (orders (snd (to_sql_orders (df @ [r]) w))) = [y]
              \<and> price y = price r \<and> volume_remain y = volume_remain r
              \<and> duration y = duration r \<and> retrieve_time y = retrieve_time r"
    using upsert_row_last_write [OF insert_update_distinct [OF assms(1), of df], of r]
    by (simp add: to_sql_orders_def bind_emit insert_update_snoc)
  show "distinct (map history_key (market_history (snd (to_sql_history hdf w))))"
    using assms(2) by (simp add: to_sql_history_def bind_emit insert_ignore_distinct)
next
  fix x assume "x \<in> set (market_history w)"
  then have "x \<in> set (history_insert_ignore (market_history w) hdf)"
    by (rule insert_ignore_keeps)
  from unique_row [OF insert_ignore_distinct [OF assms(2)] this]
  show "filter (\<lambda>y. history_key y = history_key x)
               (market_history (snd (to_sql_history hdf w))) = [x]"
    by (simp add: to_sql_history_def bind_emit)
qed

theorem store_writes_keep_dedup_keys_witness:
  "distinct (map order_id (orders (init_world 1000 [example_order] [example_history])))
   \<and> distinct (map history_key (market_history (init_world 1000 [example_order] [example_history])))
   \<and> orders (snd (to_sql_orders [example_order\<lparr>price := 7\<rparr>]
                     (init_world 1000 [example_order] [example_history])))
       = [example_order\<lparr>price := 7\<rparr>]
   \<and> market_history (snd (to_sql_history [example_history\<lparr>average := 9\<rparr>]
                             (init_world 1000 [example_order] [example_history])))
       = [example_history]"
  using store_writes_keep_dedup_keys [of "init_world 1000 [example_order] [example_history]"
      "[]" "example_order\<lparr>price := 7\<rparr>" "[example_history\<lparr>average := 9\<rparr>]"]
  by (simp add: init_world_def to_sql_orders_def to_sql_history_def bind_emit
      orders_insert_update_def orders_upsert_row_def history_insert_ignore_def
      history_ignore_row_def history_key_def example_order_def example_history_def)


section \<open>The dates of fetched history\<close>







end
